theory Spec2Isabelle
  imports Main "HOL-Library.AList" "HOL-Library.Sublist"
begin

section \<open>The peer session orchestrator of \<^verbatim>\<open>src/hooks/useWebRTC.ts\<close>\<close>

text \<open>
  The hook keeps its state in React state cells and in two refs. The embedding passes one
  record holding all of them. Objects of the transport (PeerJS connections, media streams)
  are opaque to the hook: they are modelled by their identity, a natural number, and every
  call the hook makes on the transport is appended to a trace. The \<^verbatim>\<open>open\<close> flag of a
  connection is the set \<open>opened\<close>. Handlers the transport invokes later (events, timers) are
  functions of their own; the body of one handler runs to completion, as in the single
  JavaScript thread.

  The functions of the hook are created anew at every render and close over the state
  cells of that render, while the refs are read when the function runs. A function that
  is called from a listener or a handler registered renders ago therefore reads old
  cells. \<^verbatim>\<open>stopScreenShare\<close> takes the cells of its render as a parameter, and the \<^verbatim>\<open>data\<close>
  handler with \<^verbatim>\<open>handlePeerList\<close> the topology of theirs, since these can differ from the
  state the function runs in.
\<close>

subsection \<open>Data model\<close>

type_synonym peer_id = string
type_synonym chan = nat
type_synonym media_stream = nat

datatype transition = Connecting | Connected | Disconnecting | Reconnecting

datatype topology = Mesh | Star

text \<open>\<^verbatim>\<open>interface Participant\<close>; the optional fields are options. Field \<^verbatim>\<open>id\<close> is \<open>pid\<close>.\<close>

record participant =
  pid :: peer_id
  username :: string
  stream :: media_stream
  isCreator :: bool
  isScreenSharing :: "bool option"
  streamType :: "string option"
  transitionState :: "transition option"

text \<open>\<^verbatim>\<open>interface DataMessage\<close>, with the \<^verbatim>\<open>username\<close> field the handlers read.\<close>

record message =
  m_type :: string
  m_peerId :: "string option"
  m_peers :: "string list option"
  m_isSharing :: "bool option"
  m_sharingPeerId :: "string option"
  m_timestamp :: "nat option"
  m_streamType :: "string option"
  m_urgent :: "bool option"
  m_forceRefresh :: "bool option"
  m_username :: "string option"

text \<open>One entry of \<^verbatim>\<open>connectionsRef.current\<close>.\<close>

record conn =
  mediaConnection :: "chan option"
  dataConnection :: "chan option"

text \<open>What the hook asks of the transport, in the order it asks.\<close>

datatype transport_op =
    Call chan peer_id media_stream
  | Connect chan peer_id
  | Close chan
  | Send chan message

text \<open>The closures handed to \<^verbatim>\<open>setTimeout\<close>, with the values they capture.\<close>

datatype timer =
    RemoveParticipant peer_id
  | AutoConnected peer_id
  | EstablishAllCamera peer_id "peer_id list" "media_stream option"
  | ConnectionTimeout peer_id chan media_stream

record state =
  peer :: "peer_id option"
  roomId :: string
  propIsCreator :: bool
  localUsername :: string
  localStream :: "media_stream option"
  screenStream :: "media_stream option"
  localIsScreenSharing :: bool
  participants :: "participant list"
  error :: "string option"
  networkTopology :: topology
  transitionsEnabled :: bool
  connections :: "(peer_id \<times> conn) list"
  screenConnections :: "(peer_id \<times> chan) list option"
  lastSeen :: "(peer_id \<times> nat) list"
  opened :: "chan set"
  next_chan :: chan
  trace :: "transport_op list"
  timers :: "(nat \<times> timer) list"
  delivered :: "message list"
  hasOnDataReceived :: bool
  now :: nat
  retryCount :: nat
  retryInterval :: bool

text \<open>
  The state cells \<^verbatim>\<open>stopScreenShare\<close> closes over, as they were in the render that created
  the function, and the cells of the state as a render sees them.
\<close>

record render =
  r_localStream :: "media_stream option"
  r_screenStream :: "media_stream option"
  r_participants :: "participant list"
  r_transitionsEnabled :: bool

definition render_of :: "state \<Rightarrow> render" where
  "render_of s = \<lparr>r_localStream = localStream s, r_screenStream = screenStream s,
     r_participants = participants s, r_transitionsEnabled = transitionsEnabled s\<rparr>"

subsection \<open>JavaScript idioms\<close>

text \<open>\<^verbatim>\<open>s.includes(t)\<close>: \<open>t\<close> occurs in \<open>s\<close> as a contiguous substring.\<close>

fun str_includes :: "string \<Rightarrow> string \<Rightarrow> bool" where
  "str_includes [] t = (t = [])"
| "str_includes (c # s) t = (take (length t) (c # s) = t \<or> str_includes s t)"

text \<open>Truthiness of an optional string: defined and not empty.\<close>

definition truthy :: "string option \<Rightarrow> bool" where
  "truthy x = (case x of None \<Rightarrow> False | Some v \<Rightarrow> v \<noteq> [])"

text \<open>\<^verbatim>\<open>x || d\<close> on strings.\<close>

definition or_else :: "string option \<Rightarrow> string \<Rightarrow> string" where
  "or_else x d = (if truthy x then the x else d)"

text \<open>Decimal rendering of a number inside a template string.\<close>

definition digit_char :: "nat \<Rightarrow> char" where
  "digit_char d = ''0123456789'' ! (d mod 10)"

function show_nat :: "nat \<Rightarrow> string" where
  "show_nat n = (if n < 10 then [digit_char n] else show_nat (n div 10) @ [digit_char n])"
  by pat_completeness auto
termination
  by (relation "measure (\<lambda>n. n)") auto

declare show_nat.simps [simp del]

text \<open>The id a node registers under (line 207); \<open>t\<close> is \<^verbatim>\<open>Date.now()\<close>.\<close>

definition own_peer_id :: "string \<Rightarrow> bool \<Rightarrow> nat \<Rightarrow> peer_id" where
  "own_peer_id room creator t =
     (if creator then room @ ''-creator'' else room @ ''-'' @ show_nat t)"

text \<open>A message with only its type set.\<close>

definition msg :: "string \<Rightarrow> message" where
  "msg t = \<lparr>m_type = t, m_peerId = None, m_peers = None, m_isSharing = None,
     m_sharingPeerId = None, m_timestamp = None, m_streamType = None, m_urgent = None,
     m_forceRefresh = None, m_username = None\<rparr>"

subsection \<open>The connection registry\<close>

text \<open>
  \<^verbatim>\<open>connectionsRef.current\<close> is a JavaScript object with string keys: an association list
  in insertion order. Assignment to a key is \<open>AList.update\<close> (in place, or appended),
  \<^verbatim>\<open>delete\<close> is \<open>AList.delete\<close>, \<^verbatim>\<open>Object.keys\<close> is \<open>map fst\<close>. The ids of this
  application contain a hyphen, so none is an array index, which JavaScript would list
  first.
\<close>

definition media_of :: "state \<Rightarrow> peer_id \<Rightarrow> chan option" where
  "media_of s p = (case map_of (connections s) p of None \<Rightarrow> None | Some e \<Rightarrow> mediaConnection e)"

definition data_of :: "state \<Rightarrow> peer_id \<Rightarrow> chan option" where
  "data_of s p = (case map_of (connections s) p of None \<Rightarrow> None | Some e \<Rightarrow> dataConnection e)"

text \<open>\<^verbatim>\<open>connections.dataConnection?.open\<close>.\<close>

definition data_open :: "state \<Rightarrow> conn option \<Rightarrow> bool" where
  "data_open s e = (case e of None \<Rightarrow> False
     | Some c \<Rightarrow> (case dataConnection c of None \<Rightarrow> False | Some d \<Rightarrow> d \<in> opened s))"

text \<open>\<^verbatim>\<open>connectionsRef.current[p] = { ...connectionsRef.current[p], mediaConnection: c }\<close>.\<close>

definition set_media :: "peer_id \<Rightarrow> chan option \<Rightarrow> state \<Rightarrow> state" where
  "set_media p c s = s\<lparr>connections := AList.update p
     (case map_of (connections s) p of
        None \<Rightarrow> \<lparr>mediaConnection = c, dataConnection = None\<rparr>
      | Some e \<Rightarrow> e\<lparr>mediaConnection := c\<rparr>) (connections s)\<rparr>"

subsection \<open>Transport calls\<close>

definition send :: "chan \<Rightarrow> message \<Rightarrow> state \<Rightarrow> state" where
  "send c m s = s\<lparr>trace := trace s @ [Send c m]\<rparr>"

definition close :: "chan \<Rightarrow> state \<Rightarrow> state" where
  "close c s = s\<lparr>trace := trace s @ [Close c], opened := opened s - {c}\<rparr>"

text \<open>\<^verbatim>\<open>x?.close()\<close>.\<close>

definition close_opt :: "chan option \<Rightarrow> state \<Rightarrow> state" where
  "close_opt c s = (case c of None \<Rightarrow> s | Some d \<Rightarrow> close d s)"

text \<open>\<^verbatim>\<open>peer.call(p, stream)\<close> and \<^verbatim>\<open>peer.connect(p)\<close> return a new connection object.\<close>

definition call_peer :: "peer_id \<Rightarrow> media_stream \<Rightarrow> state \<Rightarrow> state" where
  "call_peer p st s = s\<lparr>trace := trace s @ [Call (next_chan s) p st],
     next_chan := Suc (next_chan s)\<rparr>"

definition connect_peer :: "peer_id \<Rightarrow> state \<Rightarrow> state" where
  "connect_peer p s = s\<lparr>trace := trace s @ [Connect (next_chan s) p],
     next_chan := Suc (next_chan s)\<rparr>"

text \<open>\<^verbatim>\<open>if (connections.dataConnection?.open) connections.dataConnection.send(data)\<close>.\<close>

definition send_if_open :: "conn \<Rightarrow> message \<Rightarrow> state \<Rightarrow> state" where
  "send_if_open e m s =
     (if data_open s (Some e) then send (the (dataConnection e)) m s else s)"

subsection \<open>\<^verbatim>\<open>sendDataToAll\<close> (lines 2258-2266)\<close>

definition sendDataToAll :: "message \<Rightarrow> state \<Rightarrow> state" where
  "sendDataToAll data s =
     (case peer s of None \<Rightarrow> s
      | Some _ \<Rightarrow> fold (\<lambda>(peerId, e). send_if_open e data) (connections s) s)"

subsection \<open>Participant transitions and disconnection\<close>

definition setParticipants :: "(participant list \<Rightarrow> participant list) \<Rightarrow> state \<Rightarrow> state" where
  "setParticipants f s = s\<lparr>participants := f (participants s)\<rparr>"

definition setTimeout :: "nat \<Rightarrow> timer \<Rightarrow> state \<Rightarrow> state" where
  "setTimeout ms t s = s\<lparr>timers := timers s @ [(ms, t)]\<rparr>"

text \<open>\<^verbatim>\<open>setParticipantTransition\<close> (lines 2312-2336).\<close>

definition setParticipantTransition :: "peer_id \<Rightarrow> transition \<Rightarrow> state \<Rightarrow> state" where
  "setParticipantTransition peerId st s =
     (let s1 = setParticipants
                 (map (\<lambda>p. if pid p = peerId then p\<lparr>transitionState := Some st\<rparr> else p)) s
      in if st = Connecting \<or> st = Reconnecting
         then setTimeout 1000 (AutoConnected peerId) s1 else s1)"

text \<open>\<^verbatim>\<open>handlePeerDisconnection\<close> (lines 2156-2176).\<close>

definition handlePeerDisconnection :: "peer_id \<Rightarrow> state \<Rightarrow> state" where
  "handlePeerDisconnection peerId s =
     (let s1 = (if transitionsEnabled s
                then setTimeout 800 (RemoveParticipant peerId)
                       (setParticipantTransition peerId Disconnecting s)
                else setParticipants (filter (\<lambda>p. pid p \<noteq> peerId)) s)
      in if map_of (connections s1) peerId \<noteq> None
         then s1\<lparr>connections := AList.delete peerId (connections s1)\<rparr>
         else s1)"

subsection \<open>\<^verbatim>\<open>establishPeerConnection\<close> (lines 591-724)\<close>

text \<open>
  \<^verbatim>\<open>peer.connect\<close> returns a data connection that is not yet open; \<^verbatim>\<open>handleDataConnection\<close>
  only registers its handlers, and the registry receives the connection when its
  \<^verbatim>\<open>open\<close> event arrives. The media call is stored at once, and a 15 second timer is armed.
\<close>

definition establishPeerConnection :: "peer_id \<Rightarrow> state \<Rightarrow> state" where
  "establishPeerConnection peerId s =
     (case peer s of None \<Rightarrow> s
      | Some me \<Rightarrow>
        (case localStream s of None \<Rightarrow> s
         | Some ls \<Rightarrow>
           if peerId = me then s
           else if media_of s peerId \<noteq> None then s
           else
             let s1 = (if data_of s peerId = None then connect_peer peerId s else s)
             in if media_of s1 peerId = None
                then let call = next_chan s1;
                         s2 = call_peer peerId ls s1;
                         s3 = set_media peerId (Some call) s2
                     in setTimeout 15000 (ConnectionTimeout peerId call ls) s3
                else s1))"

text \<open>\<^verbatim>\<open>handleRemoteStream\<close> (lines 689-710), the \<^verbatim>\<open>stream\<close> event of that call.\<close>

definition handleRemoteStream :: "peer_id \<Rightarrow> chan \<Rightarrow> media_stream \<Rightarrow> media_stream \<Rightarrow> state \<Rightarrow> state" where
  "handleRemoteStream peerId call ls remoteStream s =
     (let s1 = s\<lparr>timers := filter (\<lambda>t. t \<noteq> (15000, ConnectionTimeout peerId call ls)) (timers s)\<rparr>
      in if list_ex (\<lambda>p. pid p = peerId) (participants s1) then s1
         else s1\<lparr>participants := participants s1 @
                [\<lparr>pid = peerId, username = localUsername s1, stream = remoteStream,
                  isCreator = str_includes peerId ''-creator'', isScreenSharing = None,
                  streamType = None, transitionState = None\<rparr>]\<rparr>)"

text \<open>The \<^verbatim>\<open>stream\<close> event of an incoming call (lines 464-521).\<close>

definition on_call_stream :: "peer_id \<Rightarrow> string \<Rightarrow> media_stream \<Rightarrow> state \<Rightarrow> state" where
  "on_call_stream callPeer peerUsername remoteStream s =
     (let isCreatorPeer = str_includes callPeer ''-creator'';
          isScreenSharingPeer =
            list_ex (\<lambda>p. pid p = callPeer \<and> isScreenSharing p = Some True) (participants s);
          stype = (if isScreenSharingPeer then ''screen'' else ''camera'');
          s1 = s\<lparr>lastSeen := AList.update callPeer (now s) (lastSeen s)\<rparr>
      in if list_ex (\<lambda>p. pid p = callPeer) (participants s1)
         then setParticipants
                (map (\<lambda>p. if pid p = callPeer
                           then p\<lparr>stream := remoteStream, streamType := Some stype,
                                  isScreenSharing := Some (stype = ''screen''),
                                  username := or_else (Some (username p)) peerUsername\<rparr>
                           else p)) s1
         else
           let s2 = (if networkTopology s1 = Mesh \<and> \<not> propIsCreator s1 \<and> \<not> isCreatorPeer
                        \<and> peer s1 \<noteq> None
                     then establishPeerConnection callPeer s1 else s1)
           in s2\<lparr>participants := participants s2 @
                [\<lparr>pid = callPeer, username = peerUsername, stream = remoteStream,
                  isCreator = isCreatorPeer, isScreenSharing = Some (stype = ''screen''),
                  streamType = Some stype, transitionState = Some Connecting\<rparr>]\<rparr>)"

subsection \<open>\<^verbatim>\<open>handlePeerList\<close> (lines 2065-2153)\<close>

text \<open>
  The function is called by the \<^verbatim>\<open>data\<close> handler of a connection; \<open>topo\<close> is the value of
  \<^verbatim>\<open>networkTopology\<close> in the render that registered the handler.
\<close>

definition peer_list_step :: "topology \<Rightarrow> peer_id \<Rightarrow> state \<Rightarrow> state" where
  "peer_list_step topo peerId s =
     (if Some peerId = peer s then s
      else if topo = Star \<and> \<not> propIsCreator s
              \<and> \<not> str_includes peerId ''-creator'' then s
      else if str_includes peerId ''-creator''
              \<and> data_open s (map_of (connections s) peerId)
              \<and> media_of s peerId \<noteq> None then s
      else establishPeerConnection peerId s)"

definition star_disconnect :: "peer_id \<Rightarrow> state \<Rightarrow> state" where
  "star_disconnect peerId s =
     (let s1 = close_opt (media_of s peerId) s;
          s2 = close_opt (data_of s1 peerId) s1;
          s3 = s2\<lparr>connections := AList.delete peerId (connections s2)\<rparr>
      in setParticipants (filter (\<lambda>p. pid p \<noteq> peerId)) s3)"

text \<open>The 2 second timer at the end of the source function only logs; it is left out.\<close>

definition handlePeerList :: "topology \<Rightarrow> peer_id list \<Rightarrow> state \<Rightarrow> state" where
  "handlePeerList topo peerIds s =
     (if peer s = None \<or> localStream s = None then s
      else
        let s1 = fold (peer_list_step topo) peerIds s
        in if topo = Star \<and> \<not> propIsCreator s1
           then fold star_disconnect
                  (filter (\<lambda>k. \<not> str_includes k ''-creator'') (map fst (connections s1))) s1
           else s1)"

subsection \<open>\<^verbatim>\<open>setTopology\<close> (lines 2199-2231)\<close>

text \<open>
  \<^verbatim>\<open>Object.entries\<close> takes a snapshot of the registry, so the loop runs over the entries
  present at the call, with the connection objects of that snapshot.
\<close>

definition topology_disconnect :: "peer_id \<times> conn \<Rightarrow> state \<Rightarrow> state" where
  "topology_disconnect = (\<lambda>(peerId, e) s.
     if \<not> str_includes peerId ''-creator''
     then let s1 = close_opt (mediaConnection e) s;
              s2 = close_opt (dataConnection e) s1;
              s3 = s2\<lparr>connections := AList.delete peerId (connections s2)\<rparr>
          in setParticipants (filter (\<lambda>p. pid p = peerId)) s3
     else s)"

definition setTopology :: "topology \<Rightarrow> state \<Rightarrow> state" where
  "setTopology topo s =
     (let s0 = s\<lparr>networkTopology := topo\<rparr>
      in if topo = Star \<and> \<not> propIsCreator s0
         then fold topology_disconnect (connections s0) s0
         else if topo = Mesh \<and> \<not> propIsCreator s0 \<and> peer s0 \<noteq> None
         then (let e = map_of (connections s0) (roomId s0 @ ''-creator'')
               in if data_open s0 e
                  then send (the (dataConnection (the e)))
                         ((msg ''request-peer-list'')\<lparr>m_timestamp := Some (now s0)\<rparr>) s0
                  else s0)
         else s0)"

subsection \<open>\<^verbatim>\<open>startScreenShare\<close> (lines 727-849)\<close>

text \<open>
  \<open>display\<close> is the outcome of \<^verbatim>\<open>getDisplayMedia\<close>: \<open>None\<close> when the promise rejects.
  The local object \<^verbatim>\<open>screenConnections\<close> is threaded through the loop beside the state and
  stored on the peer object afterwards. The waits between the steps are not modelled.
\<close>

definition screen_status_msg :: "peer_id \<Rightarrow> state \<Rightarrow> message" where
  "screen_status_msg me s = (msg ''screen-sharing-status'')
     \<lparr>m_isSharing := Some True, m_peerId := Some me, m_streamType := Some ''screen'',
      m_username := Some (localUsername s), m_timestamp := Some (now s)\<rparr>"

definition screen_started_msg :: "peer_id \<Rightarrow> state \<Rightarrow> message" where
  "screen_started_msg me s = (msg ''screen-share-started'')
     \<lparr>m_sharingPeerId := Some me, m_streamType := Some ''screen'',
      m_username := Some (localUsername s), m_timestamp := Some (now s)\<rparr>"

definition screen_stream_msg :: "peer_id \<Rightarrow> state \<Rightarrow> message" where
  "screen_stream_msg me s = (msg ''screen-sharing-stream'')
     \<lparr>m_peerId := Some me, m_streamType := Some ''screen'', m_timestamp := Some (now s)\<rparr>"

definition share_screen_step ::
  "peer_id \<Rightarrow> media_stream \<Rightarrow> participant \<Rightarrow> (peer_id \<times> chan) list \<times> state
     \<Rightarrow> (peer_id \<times> chan) list \<times> state" where
  "share_screen_step me st p = (\<lambda>(acc, s).
     if pid p = me then (acc, s)
     else let screenCall = next_chan s;
              s1 = call_peer (pid p) st s;
              acc1 = AList.update (pid p) screenCall acc;
              existingConn = map_of (connections s1) (pid p)
          in (acc1, if data_open s1 existingConn
                    then send (the (dataConnection (the existingConn)))
                           (screen_stream_msg me s1) s1
                    else s1))"

definition startScreenShare :: "media_stream option \<Rightarrow> state \<Rightarrow> state" where
  "startScreenShare display s =
     (case peer s of None \<Rightarrow> s
      | Some me \<Rightarrow>
        (case display of
           None \<Rightarrow> s\<lparr>error := Some ''Failed to start screen sharing. Please try again.''\<rparr>
         | Some st \<Rightarrow>
           let existingParticipants = participants s;
               s1 = sendDataToAll (screen_status_msg me s) s;
               s2 = sendDataToAll (screen_started_msg me s1) s1;
               s3 = s2\<lparr>screenStream := Some st, localIsScreenSharing := True\<rparr>;
               r = fold (share_screen_step me st) existingParticipants ([], s3);
               s4 = (snd r)\<lparr>screenConnections := Some (fst r)\<rparr>
           in if transitionsEnabled s4
              then fold (\<lambda>p. setParticipantTransition (pid p) Reconnecting)
                     existingParticipants s4
              else s4))"

subsection \<open>\<^verbatim>\<open>stopScreenShare\<close> (lines 852-954)\<close>

definition screen_stopped_msg :: "peer_id \<Rightarrow> state \<Rightarrow> message" where
  "screen_stopped_msg me s = (msg ''screen-sharing-status'')
     \<lparr>m_isSharing := Some False, m_peerId := Some me, m_timestamp := Some (now s)\<rparr>"

definition reconnect_msg :: "peer_id \<Rightarrow> state \<Rightarrow> message" where
  "reconnect_msg me s = (msg ''reconnect-after-screen-share'')
     \<lparr>m_peerId := Some me, m_timestamp := Some (now s)\<rparr>"

definition camera_restored_msg :: "peer_id \<Rightarrow> state \<Rightarrow> message" where
  "camera_restored_msg me s = (msg ''camera-stream-restored'')
     \<lparr>m_peerId := Some me, m_timestamp := Some (now s)\<rparr>"

text \<open>
  The guard of line 853 tests the peer ref and the \<^verbatim>\<open>screenStream\<close> cell of the function's
  own render \<open>r\<close>. Past it the function stops the tracks of that stream, closes the
  connections kept in \<^verbatim>\<open>screenConnections\<close>, and arms a 300 ms timer whose closure holds
  the peer and the participant list and local stream of \<open>r\<close>.
\<close>

definition stopScreenShare :: "render \<Rightarrow> state \<Rightarrow> state" where
  "stopScreenShare r s =
     (case peer s of None \<Rightarrow> s
      | Some me \<Rightarrow>
        (case r_screenStream r of None \<Rightarrow> s
         | Some _ \<Rightarrow>
           let ps = r_participants r;
               s1 = sendDataToAll (screen_stopped_msg me s) s;
               s2 = s1\<lparr>screenStream := None, localIsScreenSharing := False\<rparr>;
               s3 = (case screenConnections s2 of None \<Rightarrow> s2
                     | Some sc \<Rightarrow> (fold (\<lambda>(k, c). close c) sc s2)\<lparr>screenConnections := Some []\<rparr>);
               s4 = setTimeout 300 (EstablishAllCamera me (map pid ps) (r_localStream r)) s3
           in if r_transitionsEnabled r
              then fold (\<lambda>p s'. if pid p \<noteq> me
                                 then setParticipantTransition (pid p) Reconnecting s' else s')
                     ps s4
              else s4))"

text \<open>
  The \<^verbatim>\<open>ended\<close> listener \<^verbatim>\<open>startScreenShare\<close> puts on the video track of the screen stream
  (lines 788-790) calls the \<^verbatim>\<open>stopScreenShare\<close> of the render in which \<^verbatim>\<open>startScreenShare\<close>
  was called: \<open>before\<close> is the state of that call, \<open>s\<close> the state when the track ends.
\<close>

definition on_screen_track_ended :: "state \<Rightarrow> state \<Rightarrow> state" where
  "on_screen_track_ended before s = stopScreenShare (render_of before) s"

text \<open>One round of the loop of \<^verbatim>\<open>establishAllCameraConnections\<close> (lines 902-933).\<close>

definition repair_camera :: "peer_id \<Rightarrow> peer_id \<Rightarrow> state \<Rightarrow> state" where
  "repair_camera me peerId s =
     (if peerId = me then s
      else if media_of s peerId = None then establishPeerConnection peerId s
      else if data_open s (map_of (connections s) peerId)
      then send (the (data_of s peerId)) (reconnect_msg me s) s
      else s)"

text \<open>The ids the loop visits: the captured participants, then the registry keys not yet listed.\<close>

definition known_peer_ids :: "peer_id \<Rightarrow> peer_id list \<Rightarrow> state \<Rightarrow> peer_id list" where
  "known_peer_ids me pids s =
     fold (\<lambda>k acc. if k \<notin> set acc \<and> k \<noteq> me then acc @ [k] else acc)
       (map fst (connections s)) pids"

definition establishAllCameraConnections ::
  "peer_id \<Rightarrow> peer_id list \<Rightarrow> media_stream option \<Rightarrow> state \<Rightarrow> state" where
  "establishAllCameraConnections me pids ls s =
     (case ls of None \<Rightarrow> s
      | Some _ \<Rightarrow>
        let s1 = fold (repair_camera me) (known_peer_ids me pids s) s
        in sendDataToAll (camera_restored_msg me s1) s1)"

subsection \<open>Timers\<close>

text \<open>
  The 15 second timer of \<^verbatim>\<open>establishPeerConnection\<close> (lines 641-686): when the call is still
  the registered one it is closed and placed again.
\<close>

definition connection_timeout :: "peer_id \<Rightarrow> chan \<Rightarrow> media_stream \<Rightarrow> state \<Rightarrow> state" where
  "connection_timeout peerId call ls s =
     (if media_of s peerId = Some call
      then let s1 = close call s
           in (case peer s1 of None \<Rightarrow> s1
               | Some _ \<Rightarrow> set_media peerId (Some (next_chan s1)) (call_peer peerId ls s1))
      else s)"

text \<open>What a timer does when it fires.\<close>

fun run_timer :: "timer \<Rightarrow> state \<Rightarrow> state" where
  "run_timer (RemoveParticipant peerId) s = setParticipants (filter (\<lambda>p. pid p \<noteq> peerId)) s"
| "run_timer (AutoConnected peerId) s =
     setParticipants (map (\<lambda>p.
       if pid p = peerId \<and> (transitionState p = Some Connecting
                             \<or> transitionState p = Some Reconnecting)
       then p\<lparr>transitionState := Some Connected\<rparr> else p)) s"
| "run_timer (EstablishAllCamera me pids ls) s = establishAllCameraConnections me pids ls s"
| "run_timer (ConnectionTimeout peerId call ls) s = connection_timeout peerId call ls s"

text \<open>The pending timer \<open>t\<close> fires: it leaves the queue and runs.\<close>

definition fire :: "nat \<times> timer \<Rightarrow> state \<Rightarrow> state" where
  "fire t s = (if t \<in> set (timers s)
               then run_timer (snd t) (s\<lparr>timers := remove1 t (timers s)\<rparr>) else s)"

subsection \<open>The message router: the \<^verbatim>\<open>data\<close> handler (lines 1175-1881)\<close>

text \<open>The three updates of the screen-sharing messages (lines 1179-1271).\<close>

definition screen_sharing_status :: "message \<Rightarrow> participant list \<Rightarrow> participant list" where
  "screen_sharing_status data prev =
     (if m_isSharing data \<noteq> Some True
      then map (\<lambda>p. if Some (pid p) = m_peerId data
                     then p\<lparr>isScreenSharing := Some False, streamType := Some ''camera'',
                            username := or_else (m_username data) (username p)\<rparr>
                     else p) prev
      else map (\<lambda>p. if Some (pid p) = m_peerId data
                     then p\<lparr>isScreenSharing := Some True, streamType := Some ''screen'',
                            username := or_else (m_username data) (username p)\<rparr>
                     else p) prev)"

definition screen_sharing_stream :: "message \<Rightarrow> participant list \<Rightarrow> participant list" where
  "screen_sharing_stream data prev =
     map (\<lambda>p. if Some (pid p) = m_peerId data
               then p\<lparr>isScreenSharing := Some True, streamType := Some ''screen'',
                      username := or_else (m_username data) (username p)\<rparr>
               else p) prev"

definition stream_metadata :: "peer_id \<Rightarrow> string \<Rightarrow> participant list \<Rightarrow> participant list" where
  "stream_metadata peerId stype prev =
     map (\<lambda>p. if pid p = peerId
               then p\<lparr>streamType := Some stype, isScreenSharing := Some (stype = ''screen'')\<rparr>
               else p) prev"


definition camera_stream_restored_update :: "message \<Rightarrow> participant list \<Rightarrow> participant list" where
  "camera_stream_restored_update data prev =
     map (\<lambda>p. if Some (pid p) = m_peerId data then p\<lparr>isScreenSharing := Some False\<rparr> else p) prev"

text \<open>The update of a \<^verbatim>\<open>username\<close> message (lines 1812-1814).\<close>

definition username_message :: "peer_id \<Rightarrow> string \<Rightarrow> participant list \<Rightarrow> participant list" where
  "username_message peerId uname prev =
     map (\<lambda>p. if pid p = peerId then p\<lparr>username := uname\<rparr> else p) prev"

text \<open>The creator forwards a \<^verbatim>\<open>username\<close> message to every other open peer (lines 1818-1834).\<close>

definition forward_username :: "message \<Rightarrow> state \<Rightarrow> state" where
  "forward_username data s =
     fold (\<lambda>(forwardPeerId, e) s'.
             if Some forwardPeerId \<noteq> m_peerId data
             then send_if_open e
                    ((msg ''username'')\<lparr>m_username := m_username data,
                        m_peerId := m_peerId data, m_timestamp := Some (now s')\<rparr>) s'
             else s')
       (connections s) s"

text \<open>\<^verbatim>\<open>[peerRef.current?.id, ...participants.map((p) => p.id)].filter(Boolean)\<close>.\<close>

definition currentPeers :: "state \<Rightarrow> peer_id list" where
  "currentPeers s =
     filter (\<lambda>k. k \<noteq> []) ((case peer s of None \<Rightarrow> [] | Some me \<Rightarrow> [me]) @ map pid (participants s))"

text \<open>The types the final \<^verbatim>\<open>onDataReceived\<close> guard holds back (lines 1852-1866).\<close>

definition internal_types :: "string list" where
  "internal_types = [''peer-list'', ''new-peer'', ''request-peer-list'', ''peer-disconnect'',
     ''screen-sharing-status'', ''request-stream-update'', ''screen-share-started'',
     ''request-screen-stream'', ''camera-stream-restored'', ''recording-status'']"

text \<open>
  The types whose handlers place calls from timers of their own and are not part of this
  embedding; the router gives \<open>None\<close> on them.
\<close>

definition unmodelled_types :: "string list" where
  "unmodelled_types = [''screen-share-retry-needed'', ''screen-share-started'',
     ''request-screen-stream'', ''request-full-reconnect'', ''camera-stream-restored'',
     ''request-stream-update'', ''reconnect-after-screen-share'']"

text \<open>
  The handler is a sequence of independent \<^verbatim>\<open>if\<close> statements, kept in the source's order.
  \<open>dataConn\<close> is the connection the message arrived on, \<open>topo\<close> the value of
  \<^verbatim>\<open>networkTopology\<close> in the render that registered the handler.
\<close>

definition on_data :: "topology \<Rightarrow> chan \<Rightarrow> message \<Rightarrow> state \<Rightarrow> state option" where
  "on_data topo dataConn data s =
     (if m_type data \<in> set unmodelled_types then None
      else
        let s1 = (if m_type data = ''screen-sharing-status''
                  then setParticipants (screen_sharing_status data) s else s);
            s2 = (if m_type data = ''screen-sharing-stream''
                  then setParticipants (screen_sharing_stream data) s1 else s1);
            s3 = (if m_type data = ''stream-metadata'' \<and> truthy (m_streamType data)
                     \<and> truthy (m_peerId data)
                  then setParticipants
                         (stream_metadata (the (m_peerId data)) (the (m_streamType data))) s2
                  else s2);
            s4 = (if m_type data = ''peer-list'' \<and> m_peers data \<noteq> None
                  then handlePeerList topo (the (m_peers data)) s3 else s3);
            s5 = (if m_type data = ''new-peer'' \<and> truthy (m_peerId data)
                     \<and> m_peerId data \<noteq> peer s4
                     \<and> (topo = Mesh \<or> propIsCreator s4)
                  then establishPeerConnection (the (m_peerId data)) s4 else s4);
            s6 = (if m_type data = ''request-peer-list'' \<and> propIsCreator s5
                  then send dataConn
                         ((msg ''peer-list'')\<lparr>m_peers := Some (currentPeers s5),
                             m_timestamp := Some (now s5)\<rparr>) s5
                  else s5);
            s7 = (if m_type data = ''peer-disconnect'' \<and> truthy (m_peerId data)
                  then handlePeerDisconnection (the (m_peerId data)) s6 else s6);
            s8 = (if m_type data = ''username'' \<and> truthy (m_username data)
                     \<and> truthy (m_peerId data)
                  then let u = setParticipants
                                 (username_message (the (m_peerId data)) (the (m_username data))) s7
                       in if propIsCreator u \<and> peer u \<noteq> None \<and> peer u \<noteq> m_peerId data
                          then forward_username data u else u
                  else s7);
            s9 = (if hasOnDataReceived s8 \<and> m_type data \<notin> set internal_types
                  then s8\<lparr>delivered := delivered s8 @ [data]\<rparr> else s8)
        in Some (if m_type data = ''request-username'' \<and> peer s9 \<noteq> None
                 then send dataConn
                        ((msg ''username'')\<lparr>m_username := Some (localUsername s9),
                            m_peerId := peer s9, m_timestamp := Some (now s9)\<rparr>) s9
                 else s9))"

subsection \<open>\<^verbatim>\<open>connectToCreator\<close> (lines 1893-2062)\<close>

definition maxRetries :: nat where
  "maxRetries = 5"

definition creatorId :: "state \<Rightarrow> peer_id" where
  "creatorId s = roomId s @ ''-creator''"

text \<open>\<^verbatim>\<open>attemptCreatorConnection\<close> opens a data connection and registers its handlers.\<close>

definition attemptCreatorConnection :: "state \<Rightarrow> state" where
  "attemptCreatorConnection s = connect_peer (creatorId s) s"

text \<open>The first attempt is made at once; then the 3 second interval is armed.\<close>

definition connectToCreator :: "state \<Rightarrow> state" where
  "connectToCreator s = (attemptCreatorConnection (s\<lparr>retryCount := 0\<rparr>))\<lparr>retryInterval := True\<rparr>"

text \<open>The \<^verbatim>\<open>error\<close> handler of an attempt's data connection (lines 2005-2034).\<close>

definition on_creator_error :: "state \<Rightarrow> state" where
  "on_creator_error s =
     (if retryCount s < maxRetries
      then s\<lparr>retryCount := Suc (retryCount s),
             error := Some (''Room host not found. Retrying connection (''
                        @ show_nat (Suc (retryCount s)) @ ''/'' @ show_nat maxRetries @ '')...'')\<rparr>
      else s\<lparr>error := Some (''Could not connect to room host. ''
                        @ ''Either the room doesn't exist or the host is offline.''),
             retryInterval := False\<rparr>)"

text \<open>The interval callback (lines 2046-2061); a cleared interval does not fire.\<close>

definition on_retry_tick :: "state \<Rightarrow> state" where
  "on_retry_tick s =
     (if \<not> retryInterval s then s
      else if retryCount s < maxRetries
      then (if \<not> data_open s (map_of (connections s) (creatorId s))
            then attemptCreatorConnection s
            else s\<lparr>retryInterval := False\<rparr>)
      else s\<lparr>retryInterval := False\<rparr>)"

text \<open>
  The \<^verbatim>\<open>open\<close> handler of an attempt's data connection \<open>dataConn\<close> (lines 1921-2002): the
  transport has opened the connection; the interval is cleared, the creator is called
  with \<open>st\<close>, and the registry entry is overwritten with both connections.
\<close>

definition on_creator_open :: "media_stream \<Rightarrow> chan \<Rightarrow> state \<Rightarrow> state" where
  "on_creator_open st dataConn s =
     (let s1 = s\<lparr>opened := insert dataConn (opened s), retryInterval := False\<rparr>;
          call = next_chan s1;
          s2 = call_peer (creatorId s1) st s1
      in s2\<lparr>connections := AList.update (creatorId s2)
               \<lparr>mediaConnection = Some call, dataConnection = Some dataConn\<rparr> (connections s2)\<rparr>)"

text \<open>What can happen to a join attempt, and a run over a sequence of such events.\<close>

datatype join_event = DataError | Tick | DataOpen media_stream chan

fun join_step :: "join_event \<Rightarrow> state \<Rightarrow> state" where
  "join_step DataError s = on_creator_error s"
| "join_step Tick s = on_retry_tick s"
| "join_step (DataOpen st c) s = on_creator_open st c s"

definition join_run :: "join_event list \<Rightarrow> state \<Rightarrow> state" where
  "join_run evs s = fold join_step evs (connectToCreator s)"

text \<open>The calls and the data connections a trace places towards a peer.\<close>

fun is_call_to :: "peer_id \<Rightarrow> transport_op \<Rightarrow> bool" where
  "is_call_to p (Call c q st) = (q = p)"
| "is_call_to p _ = False"

fun is_connect_to :: "peer_id \<Rightarrow> transport_op \<Rightarrow> bool" where
  "is_connect_to p (Connect c q) = (q = p)"
| "is_connect_to p _ = False"

text \<open>How many connection attempts towards the creator a state's trace holds.\<close>

definition attempts :: "state \<Rightarrow> nat" where
  "attempts s = length (filter (is_connect_to (creatorId s)) (trace s))"

subsection \<open>Vocabulary of the statements\<close>

text \<open>The data connection of a registry entry, when it is open.\<close>

definition open_chan_of :: "chan set \<Rightarrow> conn \<Rightarrow> chan option" where
  "open_chan_of ops e = (case dataConnection e of None \<Rightarrow> None
     | Some d \<Rightarrow> if d \<in> ops then Some d else None)"

text \<open>The open data connections of the registry, in registry order.\<close>

definition open_data_channels :: "state \<Rightarrow> chan list" where
  "open_data_channels s = List.map_filter (\<lambda>(k, e). open_chan_of (opened s) e) (connections s)"

text \<open>The connections closed so far.\<close>

definition closed_chans :: "state \<Rightarrow> chan set" where
  "closed_chans s = {c. Close c \<in> set (trace s)}"




text \<open>The transport calls a step from \<open>s\<close> to \<open>s'\<close> has added.\<close>

definition new_ops :: "state \<Rightarrow> state \<Rightarrow> transport_op list" where
  "new_ops s s' = drop (length (trace s)) (trace s')"

definition calls_to :: "peer_id \<Rightarrow> transport_op list \<Rightarrow> nat" where
  "calls_to p ops = length (filter (is_call_to p) ops)"

definition connects_to :: "peer_id \<Rightarrow> transport_op list \<Rightarrow> nat" where
  "connects_to p ops = length (filter (is_connect_to p) ops)"

text \<open>How many media and data connections the registry holds for a peer: none or one.\<close>

definition registered_media :: "state \<Rightarrow> peer_id \<Rightarrow> nat" where
  "registered_media s p = (case media_of s p of None \<Rightarrow> 0 | Some _ \<Rightarrow> 1)"

definition registered_data :: "state \<Rightarrow> peer_id \<Rightarrow> nat" where
  "registered_data s p = (case data_of s p of None \<Rightarrow> 0 | Some _ \<Rightarrow> 1)"

text \<open>The registry holds an open data connection for the peer.\<close>

definition peer_data_open :: "state \<Rightarrow> peer_id \<Rightarrow> bool" where
  "peer_data_open s p = (case data_of s p of None \<Rightarrow> False | Some d \<Rightarrow> d \<in> opened s)"

text \<open>The registry and the lifetimes of the connections are the same in both states.\<close>

definition untouched :: "state \<Rightarrow> state \<Rightarrow> bool" where
  "untouched s s' = (connections s' = connections s \<and> opened s' = opened s
     \<and> closed_chans s' = closed_chans s)"

text \<open>The connections kept for the screen share.\<close>

definition screen_chans :: "state \<Rightarrow> chan set" where
  "screen_chans s = (case screenConnections s of None \<Rightarrow> {} | Some sc \<Rightarrow> snd ` set sc)"

text \<open>The timer \<^verbatim>\<open>stopScreenShare\<close> arms, and the state after it has fired.\<close>

definition camera_timer :: "peer_id \<Rightarrow> render \<Rightarrow> nat \<times> timer" where
  "camera_timer me r = (300, EstablishAllCamera me (map pid (r_participants r)) (r_localStream r))"

definition stop_and_repair :: "peer_id \<Rightarrow> render \<Rightarrow> state \<Rightarrow> state" where
  "stop_and_repair me r s = fire (camera_timer me r) (stopScreenShare r s)"

subsection \<open>Example states\<close>

definition guest :: "peer_id \<Rightarrow> media_stream \<Rightarrow> participant" where
  "guest p st = \<lparr>pid = p, username = ''Guest'', stream = st, isCreator = str_includes p ''-creator'',
     isScreenSharing = Some False, streamType = Some ''camera'', transitionState = Some Connected\<rparr>"

text \<open>
  A joiner \<open>r-17\<close> of room \<open>r\<close> in a mesh with the creator and the joiners \<open>r-23\<close> and
  \<open>r-31\<close>. The data connection to \<open>r-23\<close> has closed; \<open>r-31\<close> has called, its data
  connection and its stream have not arrived yet.
\<close>

definition room_state :: state where
  "room_state = \<lparr>peer = Some ''r-17'', roomId = ''r'', propIsCreator = False,
     localUsername = ''bob'', localStream = Some 0, screenStream = None,
     localIsScreenSharing = False,
     participants = [guest ''r-creator'' 101, guest ''r-23'' 102],
     error = None, networkTopology = Mesh, transitionsEnabled = True,
     connections = [(''r-creator'', \<lparr>mediaConnection = Some 1, dataConnection = Some 2\<rparr>),
                    (''r-23'', \<lparr>mediaConnection = Some 3, dataConnection = Some 4\<rparr>),
                    (''r-31'', \<lparr>mediaConnection = Some 5, dataConnection = None\<rparr>)],
     screenConnections = None, lastSeen = [], opened = {1, 2, 3, 5}, next_chan = 6,
     trace = [], timers = [], delivered = [], hasOnDataReceived = False, now = 1000,
     retryCount = 0, retryInterval = False\<rparr>"

definition alice_msg :: message where
  "alice_msg = (msg ''username'')\<lparr>m_username := Some ''Alice'', m_peerId := Some ''r-23''\<rparr>"




text \<open>The joiner \<open>r-17\<close> before it has reached anybody.\<close>

definition lobby_state :: state where
  "lobby_state = \<lparr>peer = Some ''r-17'', roomId = ''r'', propIsCreator = False,
     localUsername = ''bob'', localStream = Some 0, screenStream = None,
     localIsScreenSharing = False, participants = [],
     error = None, networkTopology = Mesh, transitionsEnabled = True,
     connections = [],
     screenConnections = None, lastSeen = [], opened = {}, next_chan = 0,
     trace = [], timers = [], delivered = [], hasOnDataReceived = False, now = 1000,
     retryCount = 0, retryInterval = False\<rparr>"

text \<open>The joiner \<open>r-17\<close> connected to the creator and to one other joiner.\<close>

definition pair_state :: state where
  "pair_state = room_state\<lparr>connections :=
     [(''r-creator'', \<lparr>mediaConnection = Some 1, dataConnection = Some 2\<rparr>),
      (''r-23'', \<lparr>mediaConnection = Some 3, dataConnection = Some 4\<rparr>)]\<rparr>"

definition bye_msg :: message where
  "bye_msg = (msg ''peer-disconnect'')\<lparr>m_peerId := Some ''r-23''\<rparr>"

text \<open>The creator of the room \<open>team-creator-sync\<close>, alone.\<close>

definition sync_host :: state where
  "sync_host = lobby_state\<lparr>peer := Some ''team-creator-sync-creator'',
     roomId := ''team-creator-sync'', propIsCreator := True\<rparr>"

text \<open>Every attempt is refused before the next tick of the interval; then the interval ticks on.\<close>

definition refused_run :: "join_event list" where
  "refused_run = [DataError, Tick, DataError, Tick, DataError, Tick, DataError, Tick,
     DataError, Tick, Tick, Tick]"

text \<open>The joiner \<open>r-17\<close> of \<open>room_state\<close> while it shares its screen with its two participants.\<close>

definition sharing_state :: state where
  "sharing_state = room_state\<lparr>screenStream := Some 9, localIsScreenSharing := True,
     screenConnections := Some [(''r-creator'', 6), (''r-23'', 7)],
     opened := {1, 2, 3, 5, 6, 7}, next_chan := 8\<rparr>"

section \<open>Properties\<close>

subsection \<open>Sending to every open peer\<close>

lemma send_if_open_eq:
  "send_if_open e m s = (case open_chan_of (opened s) e of None \<Rightarrow> s
      | Some d \<Rightarrow> s\<lparr>trace := trace s @ [Send d m]\<rparr>)"
  by (simp add: send_if_open_def data_open_def send_def open_chan_of_def split: option.splits)

lemma fold_send_if_open:
  "fold (\<lambda>(k, e). send_if_open e m) es s =
     s\<lparr>trace := trace s @ map (\<lambda>c. Send c m)
        (List.map_filter (\<lambda>(k, e). open_chan_of (opened s) e) es)\<rparr>"
proof (induction es arbitrary: s)
  case Nil
  then show ?case by simp
next
  case (Cons a es)
  obtain k e where a: "a = (k, e)" by (cases a)
  define s' where "s' = send_if_open e m s"
  have "fold (\<lambda>(k, e). send_if_open e m) (a # es) s = fold (\<lambda>(k, e). send_if_open e m) es s'"
    by (simp add: a s'_def)
  also have "\<dots> = s'\<lparr>trace := trace s' @ map (\<lambda>c. Send c m)
        (List.map_filter (\<lambda>(k, e). open_chan_of (opened s') e) es)\<rparr>"
    by (rule Cons.IH)
  also have "\<dots> = s\<lparr>trace := trace s @ map (\<lambda>c. Send c m)
        (List.map_filter (\<lambda>(k, e). open_chan_of (opened s) e) (a # es))\<rparr>"
    by (simp add: a s'_def send_if_open_eq split: option.splits)
  finally show ?case .
qed

lemma sendDataToAll_eq:
  "sendDataToAll data s =
     (if peer s = None then s
      else s\<lparr>trace := trace s @ map (\<lambda>c. Send c data) (open_data_channels s)\<rparr>)"
  by (simp add: sendDataToAll_def fold_send_if_open open_data_channels_def split: option.splits)

lemma set_open_data_channels:
  "set (open_data_channels s) =
     {c. c \<in> opened s \<and> (\<exists>k e. (k, e) \<in> set (connections s) \<and> dataConnection e = Some c)}"
  by (force simp: open_data_channels_def open_chan_of_def map_filter_def image_iff
      split: option.splits if_splits)

text \<open>
  Claim C10. \<^verbatim>\<open>sendDataToAll\<close> has one effect: the message is sent, in registry order, on
  the data connections of the registry that are open. An entry without a data connection
  or with a closed one contributes nothing: no send, no timer, no error. The registry is
  the same afterwards. The function has a result in every state; it is the state itself
  when no peer is registered.
\<close>

theorem sendDataToAll_only_open:
  "sendDataToAll data s =
     (if peer s = None then s
      else s\<lparr>trace := trace s @ map (\<lambda>c. Send c data) (open_data_channels s)\<rparr>)
   \<and> set (open_data_channels s) =
       {c. c \<in> opened s \<and> (\<exists>k e. (k, e) \<in> set (connections s) \<and> dataConnection e = Some c)}
   \<and> connections (sendDataToAll data s) = connections s
   \<and> timers (sendDataToAll data s) = timers s
   \<and> error (sendDataToAll data s) = error s"
  by (simp add: sendDataToAll_eq set_open_data_channels)

theorem sendDataToAll_only_open_witness:
  "peer room_state \<noteq> None
   \<and> sendDataToAll (msg ''chat-message'') room_state =
       room_state\<lparr>trace := [Send 2 (msg ''chat-message'')]\<rparr>"
  using sendDataToAll_only_open [of "msg ''chat-message''" room_state]
  by (simp add: room_state_def open_data_channels_def open_chan_of_def)

subsection \<open>Messages that update one participant\<close>

lemma participants_send_if_open [simp]: "participants (send_if_open e m s) = participants s"
  by (simp add: send_if_open_eq split: option.splits)

lemma participants_forward_username [simp]:
  "participants (forward_username data s) = participants s"
proof -
  have "participants (fold (\<lambda>(forwardPeerId, e) s'.
             if Some forwardPeerId \<noteq> m_peerId data
             then send_if_open e
                    ((msg ''username'')\<lparr>m_username := m_username data,
                        m_peerId := m_peerId data, m_timestamp := Some (now s')\<rparr>) s'
             else s') es s) = participants s" for es
    by (induction es arbitrary: s) (auto split: prod.splits)
  then show ?thesis by (simp add: forward_username_def)
qed

text \<open>
  Claim C8. A \<^verbatim>\<open>username\<close> message with a user name \<open>u\<close> (such as \<open>Alice\<close>) and the peer id
  \<open>X\<close> is handled, and the participant list afterwards is the list before with the
  \<open>username\<close> field of the participants whose id is \<open>X\<close> set to \<open>u\<close>: no other field and
  no other participant changes, and the order is kept. Peer ids and user names are
  non-empty strings; the handler tests both for truthiness.
\<close>

theorem username_message_applied:
  assumes "m_type data = ''username''" and "m_username data = Some u" and "u \<noteq> []"
    and "m_peerId data = Some X" and "X \<noteq> []"
  shows "\<exists>s'. on_data topo dataConn data s = Some s'
     \<and> participants s' = map (\<lambda>p. if pid p = X then p\<lparr>username := u\<rparr> else p) (participants s)"
  using assms
  by (simp add: on_data_def unmodelled_types_def truthy_def setParticipants_def
      username_message_def Let_def)

theorem username_message_applied_witness:
  "m_type alice_msg = ''username'' \<and> m_username alice_msg = Some ''Alice''
   \<and> m_peerId alice_msg = Some ''r-23''
   \<and> (\<exists>s'. on_data Mesh 2 alice_msg room_state = Some s'
        \<and> participants s' = [guest ''r-creator'' 101, (guest ''r-23'' 102)\<lparr>username := ''Alice''\<rparr>])"
  using username_message_applied [where data = alice_msg and u = "''Alice''" and X = "''r-23''"
      and topo = Mesh and dataConn = 2 and s = room_state]
  by (simp add: alice_msg_def msg_def room_state_def guest_def)

subsection \<open>The screen-sharing fields of a participant\<close>













subsection \<open>Disconnection of a peer\<close>

lemma handlePeerDisconnection_trace:
  "trace (handlePeerDisconnection p s) = trace s
   \<and> opened (handlePeerDisconnection p s) = opened s"
  by (simp add: handlePeerDisconnection_def setParticipantTransition_def setParticipants_def
      setTimeout_def Let_def)

lemma handlePeerDisconnection_registry:
  "map_of (connections (handlePeerDisconnection p s)) p = None"
  by (simp add: handlePeerDisconnection_def setParticipantTransition_def setParticipants_def
      setTimeout_def Let_def delete_conv')

text \<open>
  Claim C7. The joiner \<open>r-17\<close> holds a media connection 3 and a data connection 4 to
  \<open>r-23\<close> and receives \<^verbatim>\<open>peer-disconnect\<close> naming \<open>r-23\<close>. The registry entry is deleted and
  the participant leaves the list when the 800 ms timer fires, but the handler calls
  \<^verbatim>\<open>close\<close> on neither connection: the trace stays empty and connection 3 is still open,
  with no registry entry left that refers to it. By \<open>handlePeerDisconnection_trace\<close> this
  holds of every state and peer.
\<close>

theorem peer_disconnect_leaves_channels_open:
  "\<exists>s'. on_data Mesh 2 bye_msg room_state = Some s'
    \<and> map_of (connections s') ''r-23'' = None
    \<and> trace s' = [] \<and> opened s' = {1, 2, 3, 5}
    \<and> timers s' = [(800, RemoveParticipant ''r-23'')]
    \<and> map pid (participants s') = [''r-creator'', ''r-23'']
    \<and> map pid (participants (fire (800, RemoveParticipant ''r-23'') s')) = [''r-creator'']"
  by (simp add: on_data_def unmodelled_types_def internal_types_def bye_msg_def msg_def truthy_def
      room_state_def guest_def handlePeerDisconnection_def setParticipantTransition_def
      setParticipants_def setTimeout_def fire_def Let_def)

subsection \<open>Switching to the star topology\<close>

text \<open>
  The reconciliation of a peer list, in a handler registered in star topology, removes
  the participant of each non-creator peer it disconnects: on the joiner connected to the
  creator and to \<open>r-23\<close>, the creator's participant is the one that stays.
\<close>

lemma handlePeerList_star_removes_participant:
  "participants (handlePeerList Star [] pair_state) = [guest ''r-creator'' 101]
   \<and> map fst (connections (handlePeerList Star [] pair_state)) = [''r-creator'']
   \<and> trace (handlePeerList Star [] pair_state) = [Close 3, Close 4]"
  by (simp add: handlePeerList_def pair_state_def room_state_def guest_def star_disconnect_def
      close_opt_def close_def setParticipants_def media_of_def data_of_def Let_def)

text \<open>
  Claim C2. On the same joiner \<^verbatim>\<open>setTopology("star")\<close> closes both connections to \<open>r-23\<close>
  and deletes its registry entry, but its filter keeps the participants whose id equals
  the disconnected peer's and drops the others: afterwards the participant of the
  non-creator \<open>r-23\<close> is still listed and the creator's participant is gone.
\<close>

theorem setTopology_star_keeps_wrong_participant:
  "participants (setTopology Star pair_state) = [guest ''r-23'' 102]
   \<and> map fst (connections (setTopology Star pair_state)) = [''r-creator'']
   \<and> trace (setTopology Star pair_state) = [Close 3, Close 4]"
  by (simp add: setTopology_def pair_state_def room_state_def guest_def topology_disconnect_def
      close_opt_def close_def setParticipants_def Let_def)

text \<open>
  Neither a later peer list from the creator nor the \<^verbatim>\<open>close\<close> event of the closed media
  connection brings the creator's participant back. The handlers registered before the
  switch still hold the mesh topology: a peer list they receive leaves the participants
  as they are and connects to \<open>r-23\<close> again. The \<^verbatim>\<open>close\<close> event empties the list.
\<close>

lemma peer_list_after_setTopology:
  "participants
     (handlePeerList Mesh [''r-creator'', ''r-17'', ''r-23''] (setTopology Star pair_state))
     = [guest ''r-23'' 102]
   \<and> map fst (connections
       (handlePeerList Mesh [''r-creator'', ''r-17'', ''r-23''] (setTopology Star pair_state)))
     = [''r-creator'', ''r-23'']"
  by (simp add: setTopology_def pair_state_def room_state_def guest_def topology_disconnect_def
      close_opt_def close_def setParticipants_def Let_def handlePeerList_def peer_list_step_def
      data_open_def media_of_def data_of_def establishPeerConnection_def connect_peer_def
      call_peer_def set_media_def setTimeout_def)

lemma close_event_after_setTopology:
  "participants (fire (800, RemoveParticipant ''r-23'')
      (handlePeerDisconnection ''r-23'' (setTopology Star pair_state))) = []"
  by (simp add: setTopology_def pair_state_def room_state_def guest_def topology_disconnect_def
      close_opt_def close_def setParticipants_def Let_def handlePeerDisconnection_def
      setParticipantTransition_def setTimeout_def fire_def)

subsection \<open>The creator flag of a participant\<close>

text \<open>
  Claim C9. In the room \<open>team-creator-sync\<close> a joiner registers at time 1700000000000
  under an id that does not end in \<open>-creator\<close>. The participant the creator records for
  it, on an incoming call and on an outgoing one, has \<open>isCreator = true\<close>, since the test
  is for the substring anywhere in the id.
\<close>

theorem joiner_flagged_as_creator:
  "own_peer_id ''team-creator-sync'' False 1700000000000 = ''team-creator-sync-1700000000000''
   \<and> \<not> suffix ''-creator'' ''team-creator-sync-1700000000000''
   \<and> map (\<lambda>p. (pid p, isCreator p))
        (participants (on_call_stream ''team-creator-sync-1700000000000'' ''Guest'' 7 sync_host))
      = [(''team-creator-sync-1700000000000'', True)]
   \<and> map (\<lambda>p. (pid p, isCreator p))
        (participants (handleRemoteStream ''team-creator-sync-1700000000000'' 0 0 7 sync_host))
      = [(''team-creator-sync-1700000000000'', True)]"
  by (simp add: own_peer_id_def show_nat.simps digit_char_def suffix_def on_call_stream_def
      handleRemoteStream_def sync_host_def lobby_state_def Let_def)

subsection \<open>Joining a room whose creator does not answer\<close>

lemma attempt_fields:
  "retryInterval (attemptCreatorConnection s) = retryInterval s"
  "retryCount (attemptCreatorConnection s) = retryCount s"
  "connections (attemptCreatorConnection s) = connections s"
  "opened (attemptCreatorConnection s) = opened s"
  "creatorId (attemptCreatorConnection s) = creatorId s"
  "attempts (attemptCreatorConnection s) = Suc (attempts s)"
  by (simp_all add: attemptCreatorConnection_def connect_peer_def creatorId_def attempts_def)

text \<open>
  While no attempt reports an error the counter stays where it is, and every tick of the
  interval makes one more attempt.
\<close>

lemma silent_host_retries:
  "retryInterval s \<Longrightarrow> retryCount s < maxRetries
   \<Longrightarrow> \<not> data_open s (map_of (connections s) (creatorId s))
   \<Longrightarrow> attempts (fold join_step (replicate n Tick) s) = attempts s + n"
proof (induction n arbitrary: s)
  case 0
  then show ?case by simp
next
  case (Suc n)
  have tick: "on_retry_tick s = attemptCreatorConnection s"
    using Suc.prems by (simp add: on_retry_tick_def)
  have "attempts (fold join_step (replicate n Tick) (attemptCreatorConnection s))
        = attempts (attemptCreatorConnection s) + n"
    using Suc.prems
    by (intro Suc.IH) (simp_all add: attempt_fields data_open_def split: option.splits)
  then show ?case by (simp add: tick attempt_fields)
qed

text \<open>
  Claim C6. The creator refuses every attempt before the next tick. The fifth error
  raises the counter to the cap and writes the fifth retry notice; the next tick finds
  the cap reached and clears the interval. Five attempts have been made, the initial one
  and four retries, and the error slot keeps the retry notice: the branch that writes
  the terminal message runs only on an error that arrives after the counter has reached
  the cap, and no attempt is left to raise one.
\<close>

theorem refused_join_ends_on_retry_notice:
  "attempts (join_run refused_run lobby_state) = 5
   \<and> retryCount (join_run refused_run lobby_state) = 5
   \<and> retryInterval (join_run refused_run lobby_state) = False
   \<and> error (join_run refused_run lobby_state)
       = Some ''Room host not found. Retrying connection (5/5)...''"
  by (simp add: join_run_def refused_run_def connectToCreator_def attemptCreatorConnection_def
      connect_peer_def creatorId_def on_creator_error_def on_retry_tick_def maxRetries_def
      data_open_def attempts_def lobby_state_def show_nat.simps digit_char_def)

subsection \<open>Establishing a connection\<close>

lemma data_open_registry: "data_open s (map_of (connections s) p) = peer_data_open s p"
  by (simp add: data_open_def peer_data_open_def data_of_def split: option.splits)

lemma media_of_set_media [simp]:
  "media_of (set_media p c s) q = (if q = p then c else media_of s q)"
  by (simp add: media_of_def set_media_def update_conv' split: option.splits)

lemma data_of_set_media [simp]: "data_of (set_media p c s) q = data_of s q"
  by (simp add: data_of_def set_media_def update_conv' split: option.splits)

lemma establish_guarded:
  "peer s = None \<or> localStream s = None \<or> peer s = Some P \<or> media_of s P \<noteq> None
   \<Longrightarrow> establishPeerConnection P s = s"
  by (auto simp: establishPeerConnection_def split: option.splits)

lemma establish_new:
  assumes "peer s = Some me" "localStream s = Some ls" "P \<noteq> me" "media_of s P = None"
  shows "establishPeerConnection P s =
     (let s1 = (if data_of s P = None then connect_peer P s else s)
      in setTimeout 15000 (ConnectionTimeout P (next_chan s1) ls)
           (set_media P (Some (next_chan s1)) (call_peer P ls s1)))"
  using assms
  by (simp add: establishPeerConnection_def Let_def media_of_def connect_peer_def)

lemma establish_new_fields:
  assumes "peer s = Some me" "localStream s = Some ls" "P \<noteq> me" "media_of s P = None"
  shows "peer (establishPeerConnection P s) = peer s"
    and "localStream (establishPeerConnection P s) = localStream s"
    and "media_of (establishPeerConnection P s) q
          = (if q = P then Some (if data_of s P = None then Suc (next_chan s) else next_chan s)
             else media_of s q)"
    and "data_of (establishPeerConnection P s) q = data_of s q"
    and "trace (establishPeerConnection P s) =
          trace s @ (if data_of s P = None
                     then [Connect (next_chan s) P, Call (Suc (next_chan s)) P ls]
                     else [Call (next_chan s) P ls])"
  using assms
  by (auto simp add: establish_new Let_def setTimeout_def media_of_def data_of_def set_media_def
      call_peer_def connect_peer_def update_conv' split: option.splits)

lemma map_filter_update_same:
  "(case map_of al k of None \<Rightarrow> g (k, v) = None | Some e \<Rightarrow> g (k, v) = g (k, e))
   \<Longrightarrow> List.map_filter g (AList.update k v al) = List.map_filter g al"
  by (induction al) (auto simp: List.map_filter_simps split: option.splits)

lemma open_data_channels_set_media:
  "opened (set_media p c s) = opened s
   \<and> open_data_channels (set_media p c s) = open_data_channels s"
proof -
  have "List.map_filter (\<lambda>(k, e). open_chan_of (opened s) e)
          (AList.update p (case map_of (connections s) p of
                None \<Rightarrow> \<lparr>mediaConnection = c, dataConnection = None\<rparr>
              | Some e \<Rightarrow> e\<lparr>mediaConnection := c\<rparr>) (connections s))
        = List.map_filter (\<lambda>(k, e). open_chan_of (opened s) e) (connections s)"
    by (rule map_filter_update_same) (simp add: open_chan_of_def split: option.splits)
  then show ?thesis by (simp add: open_data_channels_def set_media_def)
qed

text \<open>What establishPeerConnection keeps, in every state.\<close>

lemma establish_keeps:
  "peer (establishPeerConnection P s) = peer s
   \<and> localStream (establishPeerConnection P s) = localStream s
   \<and> now (establishPeerConnection P s) = now s
   \<and> opened (establishPeerConnection P s) = opened s
   \<and> closed_chans (establishPeerConnection P s) = closed_chans s
   \<and> open_data_channels (establishPeerConnection P s) = open_data_channels s
   \<and> prefix (trace s) (trace (establishPeerConnection P s))
   \<and> (\<forall>q. data_of (establishPeerConnection P s) q = data_of s q)
   \<and> (\<forall>q. q \<noteq> P \<longrightarrow> media_of (establishPeerConnection P s) q = media_of s q)"
proof (cases "peer s = None \<or> localStream s = None \<or> peer s = Some P \<or> media_of s P \<noteq> None")
  case True
  then show ?thesis by (simp add: establish_guarded)
next
  case False
  then obtain me ls where h: "peer s = Some me" "localStream s = Some ls" "P \<noteq> me"
    "media_of s P = None" by auto
  have od: "open_data_channels (establishPeerConnection P s) = open_data_channels s"
    and op: "opened (establishPeerConnection P s) = opened s"
    and nw: "now (establishPeerConnection P s) = now s"
    using open_data_channels_set_media
    by (simp_all add: establish_new[OF h] Let_def setTimeout_def open_data_channels_def
        set_media_def call_peer_def connect_peer_def)
  have cl: "closed_chans (establishPeerConnection P s) = closed_chans s"
    by (auto simp add: closed_chans_def establish_new_fields(5)[OF h])
  show ?thesis
    using od op nw cl by (simp add: establish_new_fields[OF h])
qed


lemma establish_idem:
  "establishPeerConnection P (establishPeerConnection P s) = establishPeerConnection P s"
proof (cases "peer s = None \<or> localStream s = None \<or> peer s = Some P \<or> media_of s P \<noteq> None")
  case True
  then show ?thesis by (simp add: establish_guarded)
next
  case False
  then obtain me ls where h: "peer s = Some me" "localStream s = Some ls" "P \<noteq> me"
    "media_of s P = None" by auto
  have "media_of (establishPeerConnection P s) P \<noteq> None"
    by (simp add: establish_new_fields(3)[OF h])
  then show ?thesis by (rule establish_guarded[OF disjI2, OF disjI2, OF disjI2])
qed

text \<open>
  Claim C5, as the code has it. In every state the second of two consecutive calls of
  \<^verbatim>\<open>establishPeerConnection\<close> for \<open>P\<close> changes nothing, and the two calls together place at
  most one media call and open at most one data connection to \<open>P\<close>. When the node has a
  peer and a local stream, \<open>P\<close> is not the node itself and the registry holds no media
  connection for \<open>P\<close>, the registry holds one media connection for \<open>P\<close> afterwards, one
  call has been placed, and there is one control channel to \<open>P\<close>: the data connection
  the registry held before, or else one newly opened.
\<close>

theorem establishPeerConnection_twice:
  "establishPeerConnection P (establishPeerConnection P s) = establishPeerConnection P s
   \<and> calls_to P (new_ops s (establishPeerConnection P (establishPeerConnection P s))) \<le> 1
   \<and> connects_to P (new_ops s (establishPeerConnection P (establishPeerConnection P s))) \<le> 1
   \<and> (peer s \<noteq> None \<and> localStream s \<noteq> None \<and> peer s \<noteq> Some P \<and> media_of s P = None \<longrightarrow>
        registered_media (establishPeerConnection P (establishPeerConnection P s)) P = 1
        \<and> calls_to P (new_ops s (establishPeerConnection P (establishPeerConnection P s))) = 1
        \<and> registered_data s P
            + connects_to P (new_ops s (establishPeerConnection P (establishPeerConnection P s))) = 1)"
proof (cases "peer s = None \<or> localStream s = None \<or> peer s = Some P \<or> media_of s P \<noteq> None")
  case True
  then have "establishPeerConnection P s = s" by (rule establish_guarded)
  with True show ?thesis by (auto simp: new_ops_def calls_to_def connects_to_def)
next
  case False
  then obtain me ls where h: "peer s = Some me" "localStream s = Some ls" "P \<noteq> me"
    "media_of s P = None" by auto
  show ?thesis
    using h
    by (simp add: establish_idem establish_new_fields[OF h] new_ops_def calls_to_def
        connects_to_def registered_media_def registered_data_def split: option.splits)
qed

theorem establishPeerConnection_twice_witness:
  "peer lobby_state \<noteq> None \<and> localStream lobby_state \<noteq> None
   \<and> peer lobby_state \<noteq> Some ''r-23'' \<and> media_of lobby_state ''r-23'' = None
   \<and> trace (establishPeerConnection ''r-23'' (establishPeerConnection ''r-23'' lobby_state))
       = [Connect 0 ''r-23'', Call 1 ''r-23'' 0]
   \<and> registered_media
        (establishPeerConnection ''r-23'' (establishPeerConnection ''r-23'' lobby_state)) ''r-23'' = 1
   \<and> registered_data lobby_state ''r-23''
       + connects_to ''r-23'' (new_ops lobby_state
           (establishPeerConnection ''r-23'' (establishPeerConnection ''r-23'' lobby_state))) = 1"
proof -
  have h: "peer lobby_state = Some ''r-17''" "localStream lobby_state = Some 0"
    "''r-23'' \<noteq> ''r-17''" "media_of lobby_state ''r-23'' = None"
    by (simp_all add: lobby_state_def media_of_def)
  have d: "data_of lobby_state ''r-23'' = None" "next_chan lobby_state = 0"
    "trace lobby_state = []"
    by (simp_all add: lobby_state_def data_of_def)
  show ?thesis
    using establishPeerConnection_twice [of "''r-23''" lobby_state] h
    by (simp add: establish_idem establish_new_fields(5)[OF h] d)
qed

text \<open>
  Claim C5 as it is stated asks for one control channel in every state. The joiner \<open>r-31\<close> has called
  \<open>r-17\<close>, so the registry holds its media connection, and its data connection has not
  opened: both calls return at the first test and no control channel to \<open>r-31\<close> exists.
\<close>

theorem establishPeerConnection_twice_counterexample:
  "peer room_state = Some ''r-17'' \<and> localStream room_state = Some 0
   \<and> establishPeerConnection ''r-31'' (establishPeerConnection ''r-31'' room_state) = room_state
   \<and> registered_media room_state ''r-31'' = 1
   \<and> registered_data room_state ''r-31''
       + connects_to ''r-31'' (new_ops room_state
           (establishPeerConnection ''r-31'' (establishPeerConnection ''r-31'' room_state))) = 0"
proof -
  have m: "media_of room_state ''r-31'' = Some 5" "data_of room_state ''r-31'' = None"
    by (simp_all add: room_state_def media_of_def data_of_def)
  have e: "establishPeerConnection ''r-31'' room_state = room_state"
    by (rule establish_guarded) (simp add: m)
  show ?thesis
    by (simp add: e m registered_media_def registered_data_def connects_to_def new_ops_def)
       (simp add: room_state_def)
qed

subsection \<open>Starting a screen share\<close>

lemma sendDataToAll_fields [simp]:
  "next_chan (sendDataToAll m s) = next_chan s"
  "participants (sendDataToAll m s) = participants s"
  "peer (sendDataToAll m s) = peer s"
  "transitionsEnabled (sendDataToAll m s) = transitionsEnabled s"
  "connections (sendDataToAll m s) = connections s"
  "opened (sendDataToAll m s) = opened s"
  "localStream (sendDataToAll m s) = localStream s"
  "now (sendDataToAll m s) = now s"
  "timers (sendDataToAll m s) = timers s"
  "screenConnections (sendDataToAll m s) = screenConnections s"
  "closed_chans (sendDataToAll m s) = closed_chans s"
  "prefix (trace s) (trace (sendDataToAll m s))"
  by (auto simp add: sendDataToAll_eq closed_chans_def)

lemma untouched_refl [simp]: "untouched s s"
  by (simp add: untouched_def)

lemma untouched_trans: "untouched s t \<Longrightarrow> untouched t u \<Longrightarrow> untouched s u"
  by (simp add: untouched_def)

lemma untouched_sendDataToAll [simp]: "untouched s (sendDataToAll m s)"
  by (auto simp: untouched_def sendDataToAll_eq closed_chans_def)

lemma untouched_transition [simp]: "untouched s (setParticipantTransition p st s)"
  by (simp add: untouched_def setParticipantTransition_def setParticipants_def setTimeout_def
      closed_chans_def Let_def)

lemma transition_fields [simp]:
  "screenConnections (setParticipantTransition p st s) = screenConnections s"
  "trace (setParticipantTransition p st s) = trace s"
  "next_chan (setParticipantTransition p st s) = next_chan s"
  by (simp_all add: setParticipantTransition_def setParticipants_def setTimeout_def Let_def)

lemma fold_transition:
  "untouched s (fold (\<lambda>p. setParticipantTransition (pid p) st) ps s)
   \<and> screenConnections (fold (\<lambda>p. setParticipantTransition (pid p) st) ps s) = screenConnections s
   \<and> trace (fold (\<lambda>p. setParticipantTransition (pid p) st) ps s) = trace s"
proof (induction ps arbitrary: s)
  case Nil
  then show ?case by simp
next
  case (Cons p ps)
  from Cons.IH[of "setParticipantTransition (pid p) st s"] show ?case
    by (auto intro: untouched_trans[OF untouched_transition])
qed

lemma set_update_subset: "set (AList.update k v al) \<subseteq> insert (k, v) (set al)"
  by (induction al) auto

text \<open>One round of the sharing loop.\<close>

lemma share_step_state:
  "untouched s (snd (share_screen_step me st p (acc, s)))
   \<and> next_chan s \<le> next_chan (snd (share_screen_step me st p (acc, s)))
   \<and> set (trace s) \<subseteq> set (trace (snd (share_screen_step me st p (acc, s))))"
  by (auto simp: share_screen_step_def Let_def untouched_def call_peer_def send_def
      closed_chans_def data_open_def split: option.splits)

lemma share_step_acc:
  "fst ` set (fst (share_screen_step me st p (acc, s)))
     = fst ` set acc \<union> (if pid p = me then {} else {pid p})"
  by (simp add: share_screen_step_def Let_def dom_update)

lemma share_step_new:
  "(q, c) \<in> set (fst (share_screen_step me st p (acc, s))) \<Longrightarrow>
   (q, c) \<in> set acc
   \<or> (next_chan s \<le> c \<and> Call c q st \<in> set (trace (snd (share_screen_step me st p (acc, s)))))"
  using set_update_subset[of "pid p" "next_chan s" acc]
  by (auto simp: share_screen_step_def Let_def call_peer_def send_def split: if_splits)

lemma share_fold_state:
  "untouched s (snd (fold (share_screen_step me st) ps (acc, s)))
   \<and> next_chan s \<le> next_chan (snd (fold (share_screen_step me st) ps (acc, s)))
   \<and> set (trace s) \<subseteq> set (trace (snd (fold (share_screen_step me st) ps (acc, s))))"
proof (induction ps arbitrary: acc s)
  case Nil
  then show ?case by simp
next
  case (Cons p ps)
  obtain acc1 s1 where step: "share_screen_step me st p (acc, s) = (acc1, s1)"
    by (cases "share_screen_step me st p (acc, s)")
  have st1: "untouched s s1" "next_chan s \<le> next_chan s1" "set (trace s) \<subseteq> set (trace s1)"
    using share_step_state[where s=s and me=me and st=st and p=p and acc=acc]
    by (simp_all add: step)
  define r where "r = fold (share_screen_step me st) ps (acc1, s1)"
  have IH: "untouched s1 (snd r)" "next_chan s1 \<le> next_chan (snd r)"
    "set (trace s1) \<subseteq> set (trace (snd r))"
    using Cons.IH[where acc=acc1 and s=s1] by (simp_all add: r_def)
  have "untouched s (snd r)" using st1(1) IH(1) by (rule untouched_trans)
  moreover have "next_chan s \<le> next_chan (snd r)" using st1(2) IH(2) by simp
  moreover have "set (trace s) \<subseteq> set (trace (snd r))" using st1(3) IH(3) by simp
  ultimately show ?case by (simp add: step r_def)
qed

lemma share_fold_keys:
  "fst ` set (fst (fold (share_screen_step me st) ps (acc, s)))
     = fst ` set acc \<union> {q \<in> pid ` set ps. q \<noteq> me}"
proof (induction ps arbitrary: acc s)
  case Nil
  then show ?case by simp
next
  case (Cons p ps)
  obtain acc1 s1 where step: "share_screen_step me st p (acc, s) = (acc1, s1)"
    by (cases "share_screen_step me st p (acc, s)")
  have ac1: "fst ` set acc1 = fst ` set acc \<union> (if pid p = me then {} else {pid p})"
    using share_step_acc[where s=s and me=me and st=st and p=p and acc=acc]
    by (simp add: step)
  show ?case
    using Cons.IH[where acc=acc1 and s=s1] ac1 by (auto simp add: step)
qed

lemma share_fold_new:
  "(q, c) \<in> set (fst (fold (share_screen_step me st) ps (acc, s))) \<Longrightarrow>
   (q, c) \<in> set acc
   \<or> (next_chan s \<le> c
      \<and> Call c q st \<in> set (trace (snd (fold (share_screen_step me st) ps (acc, s)))))"
proof (induction ps arbitrary: acc s)
  case Nil
  then show ?case by simp
next
  case (Cons p ps)
  obtain acc1 s1 where step: "share_screen_step me st p (acc, s) = (acc1, s1)"
    by (cases "share_screen_step me st p (acc, s)")
  have st1: "next_chan s \<le> next_chan s1"
    using share_step_state[where s=s and me=me and st=st and p=p and acc=acc]
    by (simp add: step)
  define r where "r = fold (share_screen_step me st) ps (acc1, s1)"
  have sub: "set (trace s1) \<subseteq> set (trace (snd r))"
    using share_fold_state[where s=s1 and me=me and st=st and ps=ps and acc=acc1]
    by (simp add: r_def)
  from Cons.prems have "(q, c) \<in> set (fst r)" by (simp add: step r_def)
  then have "(q, c) \<in> set acc1 \<or> (next_chan s1 \<le> c \<and> Call c q st \<in> set (trace (snd r)))"
    unfolding r_def by (rule Cons.IH)
  then have "(q, c) \<in> set acc \<or> (next_chan s \<le> c \<and> Call c q st \<in> set (trace (snd r)))"
  proof
    assume "(q, c) \<in> set acc1"
    then have "(q, c) \<in> set acc \<or> (next_chan s \<le> c \<and> Call c q st \<in> set (trace s1))"
      using share_step_new[where q=q and c=c and me=me and st=st and p=p and acc=acc and s=s]
      by (simp add: step)
    then show ?thesis using sub by blast
  next
    assume "next_chan s1 \<le> c \<and> Call c q st \<in> set (trace (snd r))"
    then show ?thesis using st1 by simp
  qed
  then show ?case by (simp add: step r_def)
qed


lemma startScreenShare_shared:
  assumes "peer s = Some me"
  shows "\<exists>s3. next_chan s3 = next_chan s
     \<and> untouched s (startScreenShare (Some st) s)
     \<and> screenConnections (startScreenShare (Some st) s)
          = Some (fst (fold (share_screen_step me st) (participants s) ([], s3)))
     \<and> trace (startScreenShare (Some st) s)
          = trace (snd (fold (share_screen_step me st) (participants s) ([], s3)))"
proof -
  define s3 where "s3 =
    (sendDataToAll (screen_started_msg me (sendDataToAll (screen_status_msg me s) s))
       (sendDataToAll (screen_status_msg me s) s))
    \<lparr>screenStream := Some st, localIsScreenSharing := True\<rparr>"
  define r where "r = fold (share_screen_step me st) (participants s) ([], s3)"
  have u3: "untouched s s3"
    unfolding s3_def
    using untouched_trans[OF untouched_sendDataToAll untouched_sendDataToAll]
    by (simp add: untouched_def closed_chans_def)
  have ur: "untouched s3 (snd r)"
    unfolding r_def using share_fold_state by blast
  define s4 where "s4 = (snd r)\<lparr>screenConnections := Some (fst r)\<rparr>"
  have u4: "untouched s s4"
    using untouched_trans[OF u3 ur] by (simp add: s4_def untouched_def closed_chans_def)
  have res: "startScreenShare (Some st) s =
      (if transitionsEnabled s4
       then fold (\<lambda>p. setParticipantTransition (pid p) Reconnecting) (participants s) s4
       else s4)"
    using assms(1) by (simp add: startScreenShare_def Let_def s4_def r_def s3_def)
  have "untouched s (fold (\<lambda>p. setParticipantTransition (pid p) Reconnecting) (participants s) s4)"
    using fold_transition[where s=s4 and st=Reconnecting and ps="participants s"] u4
    by (blast intro: untouched_trans)
  then have 1: "untouched s (startScreenShare (Some st) s)"
    unfolding res using u4 by simp
  have 2: "screenConnections (startScreenShare (Some st) s) = Some (fst r)"
    unfolding res by (simp add: fold_transition s4_def)
  have 3: "trace (startScreenShare (Some st) s) = trace (snd r)"
    unfolding res by (simp add: fold_transition s4_def)
  have 4: "next_chan s3 = next_chan s" by (simp add: s3_def)
  from 1 2 3 4 show ?thesis unfolding r_def by blast
qed

text \<open>
  Claim C1, as the code has it. \<^verbatim>\<open>startScreenShare\<close> leaves the registry as it is, so every
  entry holds the media connection it held, and it closes nothing: the open connections
  and the closed ones are the same afterwards. When a peer is registered and the screen
  capture is granted, the table \<^verbatim>\<open>screenConnections\<close>, which is not the registry, holds
  afterwards one entry for each participant of the list other than the node itself, and
  each of these connections is a new one, the result of a call placed to that
  participant with the screen stream.
\<close>

theorem startScreenShare_frame:
  "connections (startScreenShare display s) = connections s
   \<and> opened (startScreenShare display s) = opened s
   \<and> closed_chans (startScreenShare display s) = closed_chans s
   \<and> (peer s = Some me \<and> display = Some st \<longrightarrow>
        (\<exists>sc. screenConnections (startScreenShare display s) = Some sc
           \<and> fst ` set sc = {q \<in> pid ` set (participants s). q \<noteq> me}
           \<and> (\<forall>(q, c) \<in> set sc. next_chan s \<le> c
                  \<and> Call c q st \<in> set (trace (startScreenShare display s)))))"
proof -
  have frame: "untouched s (startScreenShare display s)"
  proof (cases "peer s")
    case None
    then show ?thesis by (simp add: startScreenShare_def)
  next
    case (Some me')
    show ?thesis
    proof (cases display)
      case None
      with Some show ?thesis
        by (simp add: startScreenShare_def untouched_def closed_chans_def)
    next
      case (Some st')
      with \<open>peer s = Some me'\<close> startScreenShare_shared[of s me' st'] show ?thesis by blast
    qed
  qed
  have shared: "\<exists>sc. screenConnections (startScreenShare display s) = Some sc
           \<and> fst ` set sc = {q \<in> pid ` set (participants s). q \<noteq> me}
           \<and> (\<forall>(q, c) \<in> set sc. next_chan s \<le> c
                  \<and> Call c q st \<in> set (trace (startScreenShare display s)))"
    if h: "peer s = Some me" "display = Some st"
  proof -
    from startScreenShare_shared[OF h(1), of st] obtain s3 where
      n: "next_chan s3 = next_chan s" and
      sc: "screenConnections (startScreenShare (Some st) s)
            = Some (fst (fold (share_screen_step me st) (participants s) ([], s3)))" and
      tr: "trace (startScreenShare (Some st) s)
            = trace (snd (fold (share_screen_step me st) (participants s) ([], s3)))"
      by blast
    define r where "r = fold (share_screen_step me st) (participants s) ([], s3)"
    have keys: "fst ` set (fst r) = {q \<in> pid ` set (participants s). q \<noteq> me}"
      using share_fold_keys[where me=me and st=st and ps="participants s" and acc="[]" and s=s3]
      by (simp add: r_def)
    have new: "next_chan s \<le> c \<and> Call c q st \<in> set (trace (snd r))"
      if "(q, c) \<in> set (fst r)" for q c
      using share_fold_new[where me=me and st=st and ps="participants s" and acc="[]"
          and s=s3 and q=q and c=c] that n
      by (simp add: r_def)
    have "screenConnections (startScreenShare display s) = Some (fst r)"
      by (simp add: h(2) sc r_def)
    moreover have "\<forall>(q, c) \<in> set (fst r). next_chan s \<le> c
                  \<and> Call c q st \<in> set (trace (startScreenShare display s))"
      using new by (auto simp add: h(2) tr r_def)
    ultimately show ?thesis using keys by blast
  qed
  from frame shared show ?thesis by (simp add: untouched_def)
qed

theorem startScreenShare_frame_witness:
  "peer room_state = Some ''r-17''
   \<and> connections (startScreenShare (Some 9) room_state) = connections room_state
   \<and> closed_chans (startScreenShare (Some 9) room_state) = closed_chans room_state
   \<and> (\<exists>sc. screenConnections (startScreenShare (Some 9) room_state) = Some sc
         \<and> fst ` set sc = {q \<in> pid ` set (participants room_state). q \<noteq> ''r-17''}
         \<and> (\<forall>(q, c) \<in> set sc. next_chan room_state \<le> c
                \<and> Call c q 9 \<in> set (trace (startScreenShare (Some 9) room_state))))"
proof -
  have h: "peer room_state = Some ''r-17''" by (simp add: room_state_def)
  show ?thesis
    using startScreenShare_frame [of "Some 9" room_state "''r-17''" 9] h by blast
qed

text \<open>
  Claim C1 as it is stated asks for a screen connection to every peer with an open media
  connection.
  The joiner \<open>r-31\<close> has one, connection 5, and is not yet a participant: the loop runs
  over the participants, and no screen connection to \<open>r-31\<close> is opened.
\<close>

theorem startScreenShare_counterexample:
  "peer room_state = Some ''r-17''
   \<and> media_of room_state ''r-31'' = Some 5 \<and> 5 \<in> opened room_state
   \<and> screenConnections (startScreenShare (Some 9) room_state)
       = Some [(''r-creator'', 6), (''r-23'', 7)]"
  by (simp add: startScreenShare_def room_state_def guest_def media_of_def Let_def
      sendDataToAll_eq open_data_channels_def open_chan_of_def share_screen_step_def
      call_peer_def send_def data_open_def setParticipantTransition_def setParticipants_def
      setTimeout_def)


subsection \<open>Stopping a screen share\<close>

lemma new_ops_grow:
  "prefix (trace b) (trace c) \<Longrightarrow> x \<in> set (new_ops a b) \<Longrightarrow> x \<in> set (new_ops a c)"
  by (auto simp: new_ops_def prefix_def)

lemma new_ops_later:
  "prefix (trace a) (trace b) \<Longrightarrow> x \<in> set (new_ops b c) \<Longrightarrow> x \<in> set (new_ops a c)"
  using set_drop_subset_set_drop[of "length (trace a)" "length (trace b)" "trace c"]
  by (auto simp: new_ops_def dest: prefix_length_le)

text \<open>One round of the repair loop, on a node with a peer and a local stream.\<close>

lemma repair_keeps:
  "peer (repair_camera me q s) = peer s
   \<and> localStream (repair_camera me q s) = localStream s
   \<and> now (repair_camera me q s) = now s
   \<and> opened (repair_camera me q s) = opened s
   \<and> closed_chans (repair_camera me q s) = closed_chans s
   \<and> open_data_channels (repair_camera me q s) = open_data_channels s
   \<and> prefix (trace s) (trace (repair_camera me q s))
   \<and> (\<forall>p. data_of (repair_camera me q s) p = data_of s p)
   \<and> (\<forall>p. p \<noteq> q \<longrightarrow> media_of (repair_camera me q s) p = media_of s p)"
proof -
  have "repair_camera me q s = s \<or> repair_camera me q s = establishPeerConnection q s
        \<or> repair_camera me q s = send (the (data_of s q)) (reconnect_msg me s) s"
    by (simp add: repair_camera_def)
  then show ?thesis
  proof (elim disjE)
    assume "repair_camera me q s = s"
    then show ?thesis by simp
  next
    assume "repair_camera me q s = establishPeerConnection q s"
    then show ?thesis using establish_keeps[of q s] by simp
  next
    assume "repair_camera me q s = send (the (data_of s q)) (reconnect_msg me s) s"
    then show ?thesis
      by (auto simp: send_def closed_chans_def open_data_channels_def data_of_def media_of_def)
  qed
qed

lemma repair_attempt:
  assumes "peer s = Some me" "localStream s = Some ls" "q \<noteq> me"
  shows "(media_of s q = None \<longrightarrow> (\<exists>c. Call c q ls \<in> set (new_ops s (repair_camera me q s))))
   \<and> (media_of s q \<noteq> None \<and> peer_data_open s q \<longrightarrow>
        Send (the (data_of s q)) (reconnect_msg me s) \<in> set (new_ops s (repair_camera me q s)))"
proof (cases "media_of s q")
  case None
  then show ?thesis
    using assms
    by (simp add: repair_camera_def new_ops_def establish_new_fields(5)[OF assms(1,2,3) None])
next
  case (Some c)
  then show ?thesis
    using assms
    by (simp add: repair_camera_def new_ops_def data_open_registry send_def)
qed

lemma repair_fold_keeps:
  "peer (fold (repair_camera me) ids s) = peer s
   \<and> localStream (fold (repair_camera me) ids s) = localStream s
   \<and> now (fold (repair_camera me) ids s) = now s
   \<and> opened (fold (repair_camera me) ids s) = opened s
   \<and> closed_chans (fold (repair_camera me) ids s) = closed_chans s
   \<and> open_data_channels (fold (repair_camera me) ids s) = open_data_channels s
   \<and> prefix (trace s) (trace (fold (repair_camera me) ids s))"
proof (induction ids arbitrary: s)
  case Nil
  then show ?case by simp
next
  case (Cons q ids)
  show ?case
    using Cons.IH[of "repair_camera me q s"] repair_keeps[of me q s]
    by (auto intro: prefix_order.trans)
qed

lemma repair_fold_attempts:
  assumes "peer s = Some me" "localStream s = Some ls" "p \<in> set ids" "p \<noteq> me"
  shows "(media_of s p = None \<longrightarrow>
            (\<exists>c. Call c p ls \<in> set (new_ops s (fold (repair_camera me) ids s))))
   \<and> (media_of s p \<noteq> None \<and> peer_data_open s p \<longrightarrow>
        Send (the (data_of s p)) (reconnect_msg me s)
          \<in> set (new_ops s (fold (repair_camera me) ids s)))"
  using assms
proof (induction ids arbitrary: s)
  case Nil
  then show ?case by simp
next
  case (Cons q ids)
  define s1 where "s1 = repair_camera me q s"
  define s2 where "s2 = fold (repair_camera me) ids s1"
  have keep: "peer s1 = Some me" "localStream s1 = Some ls" "now s1 = now s"
    "opened s1 = opened s" "prefix (trace s) (trace s1)"
    "\<And>r. data_of s1 r = data_of s r" "\<And>r. r \<noteq> q \<Longrightarrow> media_of s1 r = media_of s r"
    using repair_keeps[of me q s] Cons.prems(1,2) by (simp_all add: s1_def)
  have pre2: "prefix (trace s1) (trace s2)"
    using repair_fold_keeps[of me ids s1] by (simp add: s2_def)
  have f: "fold (repair_camera me) (q # ids) s = s2" by (simp add: s1_def s2_def)
  show ?case
  proof (cases "p = q")
    case True
    have "(media_of s q = None \<longrightarrow> (\<exists>c. Call c q ls \<in> set (new_ops s s1)))
       \<and> (media_of s q \<noteq> None \<and> peer_data_open s q \<longrightarrow>
            Send (the (data_of s q)) (reconnect_msg me s) \<in> set (new_ops s s1))"
      unfolding s1_def using Cons.prems(1,2,4) True by (intro repair_attempt) simp_all
    then show ?thesis
      unfolding f True using new_ops_grow[OF pre2] by blast
  next
    case False
    with Cons.prems(3) have "p \<in> set ids" by simp
    from Cons.IH[OF keep(1,2) this Cons.prems(4)]
    have "(media_of s1 p = None \<longrightarrow> (\<exists>c. Call c p ls \<in> set (new_ops s1 s2)))
       \<and> (media_of s1 p \<noteq> None \<and> peer_data_open s1 p \<longrightarrow>
            Send (the (data_of s1 p)) (reconnect_msg me s1) \<in> set (new_ops s1 s2))"
      by (simp add: s2_def)
    moreover have "media_of s1 p = media_of s p" using False keep(7) by simp
    moreover have "peer_data_open s1 p = peer_data_open s p"
      by (simp add: peer_data_open_def keep split: option.splits)
    moreover have "reconnect_msg me s1 = reconnect_msg me s"
      by (simp add: reconnect_msg_def keep)
    ultimately show ?thesis
      unfolding f using new_ops_later[OF keep(5)] by (auto simp: keep(6))
  qed
qed

lemma known_peer_ids_set:
  "set (known_peer_ids me pids s) = set pids \<union> (fst ` set (connections s) - {me})"
proof -
  have "set (fold (\<lambda>k acc. if k \<notin> set acc \<and> k \<noteq> me then acc @ [k] else acc) ks acc)
        = set acc \<union> (set ks - {me})" for ks acc
    by (induction ks arbitrary: acc) auto
  then show ?thesis by (simp add: known_peer_ids_def)
qed


lemma fold_close:
  "trace (fold (\<lambda>(k, c). close c) sc s) = trace s @ map (\<lambda>(k, c). Close c) sc
   \<and> opened (fold (\<lambda>(k, c). close c) sc s) = opened s - snd ` set sc
   \<and> connections (fold (\<lambda>(k, c). close c) sc s) = connections s
   \<and> peer (fold (\<lambda>(k, c). close c) sc s) = peer s
   \<and> localStream (fold (\<lambda>(k, c). close c) sc s) = localStream s
   \<and> now (fold (\<lambda>(k, c). close c) sc s) = now s
   \<and> timers (fold (\<lambda>(k, c). close c) sc s) = timers s
   \<and> participants (fold (\<lambda>(k, c). close c) sc s) = participants s
   \<and> transitionsEnabled (fold (\<lambda>(k, c). close c) sc s) = transitionsEnabled s"
proof (induction sc arbitrary: s)
  case Nil
  then show ?case by simp
next
  case (Cons a sc)
  obtain k c where a: "a = (k, c)" by (cases a)
  show ?case using Cons.IH[of "close c s"] by (auto simp: a close_def)
qed

lemma fold_reconnecting:
  "trace (fold (\<lambda>p s'. if pid p \<noteq> me then setParticipantTransition (pid p) st s' else s') ps s)
     = trace s
   \<and> opened (fold (\<lambda>p s'. if pid p \<noteq> me then setParticipantTransition (pid p) st s' else s') ps s)
     = opened s
   \<and> connections (fold (\<lambda>p s'. if pid p \<noteq> me then setParticipantTransition (pid p) st s' else s') ps s)
     = connections s
   \<and> peer (fold (\<lambda>p s'. if pid p \<noteq> me then setParticipantTransition (pid p) st s' else s') ps s)
     = peer s
   \<and> localStream (fold (\<lambda>p s'. if pid p \<noteq> me then setParticipantTransition (pid p) st s' else s') ps s)
     = localStream s
   \<and> now (fold (\<lambda>p s'. if pid p \<noteq> me then setParticipantTransition (pid p) st s' else s') ps s)
     = now s
   \<and> set (timers s)
     \<subseteq> set (timers (fold (\<lambda>p s'. if pid p \<noteq> me then setParticipantTransition (pid p) st s' else s') ps s))"
proof (induction ps arbitrary: s)
  case Nil
  then show ?case by simp
next
  case (Cons p ps)
  show ?case
    using Cons.IH[of "setParticipantTransition (pid p) st s"] Cons.IH[of s]
    by (auto simp: setParticipantTransition_def setParticipants_def setTimeout_def Let_def)
qed

lemma stopScreenShare_effect:
  assumes "peer s = Some me" "r_screenStream r = Some x"
  shows "camera_timer me r \<in> set (timers (stopScreenShare r s))"
    and "connections (stopScreenShare r s) = connections s"
    and "peer (stopScreenShare r s) = peer s"
    and "localStream (stopScreenShare r s) = localStream s"
    and "now (stopScreenShare r s) = now s"
    and "prefix (trace s) (trace (stopScreenShare r s))"
    and "closed_chans (stopScreenShare r s) = closed_chans s \<union> screen_chans s"
proof -
  define s2 where "s2 = (sendDataToAll (screen_stopped_msg me s) s)
    \<lparr>screenStream := None, localIsScreenSharing := False\<rparr>"
  define s3 where "s3 = (case screenConnections s2 of None \<Rightarrow> s2
     | Some sc \<Rightarrow> (fold (\<lambda>(k, c). close c) sc s2)\<lparr>screenConnections := Some []\<rparr>)"
  define s4 where "s4 = setTimeout 300
     (EstablishAllCamera me (map pid (r_participants r)) (r_localStream r)) s3"
  have res: "stopScreenShare r s =
     (if r_transitionsEnabled r
      then fold (\<lambda>p s'. if pid p \<noteq> me
                         then setParticipantTransition (pid p) Reconnecting s' else s')
             (r_participants r) s4
      else s4)"
    using assms unfolding s4_def s3_def s2_def stopScreenShare_def Let_def by simp
  have s2: "connections s2 = connections s" "peer s2 = peer s" "localStream s2 = localStream s"
    "now s2 = now s" "prefix (trace s) (trace s2)" "closed_chans s2 = closed_chans s"
    "screenConnections s2 = screenConnections s"
    using sendDataToAll_fields(11,12)[where m="screen_stopped_msg me s" and s=s]
    by (simp_all add: s2_def closed_chans_def)
  have s3: "connections s3 = connections s" "peer s3 = peer s" "localStream s3 = localStream s"
    "now s3 = now s" "prefix (trace s) (trace s3)"
    "closed_chans s3 = closed_chans s \<union> screen_chans s"
  proof -
    show "connections s3 = connections s" "peer s3 = peer s" "localStream s3 = localStream s"
      "now s3 = now s"
      by (simp_all add: s3_def s2 fold_close split: option.splits)
    show "prefix (trace s) (trace s3)"
      using s2(5) by (auto simp add: s3_def fold_close split: option.splits)
    have cl: "closed_chans ((fold (\<lambda>(k, c). close c) sc s2)\<lparr>screenConnections := Some []\<rparr>)
          = closed_chans s2 \<union> snd ` set sc" for sc
      by (force simp add: fold_close closed_chans_def image_iff)
    show "closed_chans s3 = closed_chans s \<union> screen_chans s"
      using s2(6)
      by (simp add: s3_def s2(7) cl screen_chans_def split: option.splits)
  qed
  have s4: "connections s4 = connections s" "peer s4 = peer s" "localStream s4 = localStream s"
    "now s4 = now s" "prefix (trace s) (trace s4)"
    "closed_chans s4 = closed_chans s \<union> screen_chans s"
    "camera_timer me r \<in> set (timers s4)"
    using s3 by (simp_all add: s4_def setTimeout_def closed_chans_def camera_timer_def)
  note fr = fold_reconnecting[where me=me and st=Reconnecting and ps="r_participants r"
      and s=s4]
  show "camera_timer me r \<in> set (timers (stopScreenShare r s))"
    unfolding res using s4(7) fr by auto
  show "connections (stopScreenShare r s) = connections s"
    unfolding res using s4(1) fr by auto
  show "peer (stopScreenShare r s) = peer s"
    unfolding res using s4(2) fr by auto
  show "localStream (stopScreenShare r s) = localStream s"
    unfolding res using s4(3) fr by auto
  show "now (stopScreenShare r s) = now s"
    unfolding res using s4(4) fr by auto
  show "prefix (trace s) (trace (stopScreenShare r s))"
    unfolding res using s4(5) fr by auto
  show "closed_chans (stopScreenShare r s) = closed_chans s \<union> screen_chans s"
    unfolding res using s4(6) fr by (auto simp: closed_chans_def)
qed

lemma establishAll_effect:
  fixes pids :: "peer_id list"
  assumes "peer t = Some me" "localStream t = Some ls"
  defines "t' \<equiv> establishAllCameraConnections me pids (Some ls) t"
  shows "closed_chans t' = closed_chans t"
    and "prefix (trace t) (trace t')"
    and "\<forall>c \<in> set (open_data_channels t). Send c (camera_restored_msg me t) \<in> set (new_ops t t')"
    and "\<forall>p \<in> set pids \<union> fst ` set (connections t). p \<noteq> me \<longrightarrow>
          (media_of t p = None \<longrightarrow> (\<exists>c. Call c p ls \<in> set (new_ops t t')))
          \<and> (media_of t p \<noteq> None \<and> peer_data_open t p \<longrightarrow>
                Send (the (data_of t p)) (reconnect_msg me t) \<in> set (new_ops t t'))"
proof -
  define ids where "ids = known_peer_ids me pids t"
  define u where "u = fold (repair_camera me) ids t"
  have keep: "peer u = Some me" "now u = now t" "closed_chans u = closed_chans t"
    "open_data_channels u = open_data_channels t" "prefix (trace t) (trace u)"
    using repair_fold_keeps[of me ids t] assms(1) by (simp_all add: u_def)
  have t': "t' = sendDataToAll (camera_restored_msg me t) u"
    by (simp add: t'_def establishAllCameraConnections_def Let_def ids_def u_def
        camera_restored_msg_def keep(2)[unfolded u_def ids_def])
  have tr: "trace t' = trace u @ map (\<lambda>c. Send c (camera_restored_msg me t)) (open_data_channels t)"
    by (simp add: t' sendDataToAll_eq keep)
  have pu: "prefix (trace u) (trace t')" by (simp add: tr)
  show "closed_chans t' = closed_chans t"
    using keep(3) by (auto simp add: tr closed_chans_def)
  show "prefix (trace t) (trace t')"
    using keep(5) pu by (rule prefix_order.trans)
  show "\<forall>c \<in> set (open_data_channels t). Send c (camera_restored_msg me t) \<in> set (new_ops t t')"
    using keep(5) by (auto simp add: new_ops_def tr dest: prefix_length_le)
  show "\<forall>p \<in> set pids \<union> fst ` set (connections t). p \<noteq> me \<longrightarrow>
          (media_of t p = None \<longrightarrow> (\<exists>c. Call c p ls \<in> set (new_ops t t')))
          \<and> (media_of t p \<noteq> None \<and> peer_data_open t p \<longrightarrow>
                Send (the (data_of t p)) (reconnect_msg me t) \<in> set (new_ops t t'))"
  proof (intro ballI impI)
    fix p assume p: "p \<in> set pids \<union> fst ` set (connections t)" "p \<noteq> me"
    then have "p \<in> set ids" by (auto simp add: ids_def known_peer_ids_set)
    from repair_fold_attempts[OF assms(1,2) this p(2)]
    show "(media_of t p = None \<longrightarrow> (\<exists>c. Call c p ls \<in> set (new_ops t t')))
          \<and> (media_of t p \<noteq> None \<and> peer_data_open t p \<longrightarrow>
                Send (the (data_of t p)) (reconnect_msg me t) \<in> set (new_ops t t'))"
      unfolding u_def[symmetric] using new_ops_grow[OF pu] by blast
  qed
qed

text \<open>
  A call of \<^verbatim>\<open>stopScreenShare\<close> from a render that sees the screen stream and a local stream,
  as the one the user interface makes: the 300 ms timer is armed and the registry left as
  it is; once the timer has fired, in the state the function left, the connections
  closed are those of \<^verbatim>\<open>screenConnections\<close> and no other, \<^verbatim>\<open>camera-stream-restored\<close> has been
  sent on every open data connection of the registry, and for every id of a participant
  of the render or of a registry entry, other than the node's own: a call with the local
  stream has been placed when the registry held no media connection for it, and
  \<^verbatim>\<open>reconnect-after-screen-share\<close> has been sent to it when the registry held a media
  connection and an open data connection for it.
\<close>

lemma stopScreenShare_repairs:
  assumes "peer s = Some me" and "r_screenStream r = Some x" and "r_localStream r = Some ls"
    and "localStream s = Some ls"
  shows "camera_timer me r \<in> set (timers (stopScreenShare r s))
   \<and> connections (stopScreenShare r s) = connections s
   \<and> closed_chans (stop_and_repair me r s) = closed_chans s \<union> screen_chans s
   \<and> (\<forall>c \<in> set (open_data_channels (stopScreenShare r s)).
         Send c (camera_restored_msg me s) \<in> set (new_ops s (stop_and_repair me r s)))
   \<and> (\<forall>p \<in> pid ` set (r_participants r) \<union> fst ` set (connections s). p \<noteq> me \<longrightarrow>
         (media_of s p = None \<longrightarrow>
            (\<exists>c. Call c p ls \<in> set (new_ops s (stop_and_repair me r s))))
         \<and> (media_of s p \<noteq> None \<and> peer_data_open (stopScreenShare r s) p \<longrightarrow>
               Send (the (data_of s p)) (reconnect_msg me s)
                 \<in> set (new_ops s (stop_and_repair me r s))))"
proof -
  note st = stopScreenShare_effect[OF assms(1,2)]
  define S where "S = stopScreenShare r s"
  define t where "t = S\<lparr>timers := remove1 (camera_timer me r) (timers S)\<rparr>"
  define T where "T = establishAllCameraConnections me (map pid (r_participants r)) (Some ls) t"
  have T: "stop_and_repair me r s = T"
    using st(1) assms(3)
    by (simp add: stop_and_repair_def fire_def T_def t_def S_def camera_timer_def)
  have t: "peer t = Some me" "localStream t = Some ls" "connections t = connections s"
    "now t = now s" "trace t = trace S" "opened t = opened S"
    using st assms by (simp_all add: t_def S_def)
  have same: "media_of t p = media_of s p" "data_of t p = data_of s p"
    "peer_data_open t p = peer_data_open S p" for p
    using t(3,6) st(2)
    by (simp_all add: media_of_def data_of_def peer_data_open_def S_def split: option.splits)
  have od: "open_data_channels t = open_data_channels S"
    using t(3,6) st(2) by (simp add: open_data_channels_def S_def)
  have msgs: "camera_restored_msg me t = camera_restored_msg me s"
    "reconnect_msg me t = reconnect_msg me s"
    by (simp_all add: camera_restored_msg_def reconnect_msg_def t(4))
  have cc: "closed_chans t = closed_chans s \<union> screen_chans s"
    using st(7) by (simp add: closed_chans_def t(5) S_def)
  have pre: "prefix (trace s) (trace t)" using st(6) by (simp add: t(5) S_def)
  note ea = establishAll_effect[OF t(1,2), of "map pid (r_participants r)", folded T_def]
  have 1: "closed_chans T = closed_chans s \<union> screen_chans s" using ea(1) cc by simp
  have 2: "\<forall>c \<in> set (open_data_channels S). Send c (camera_restored_msg me s) \<in> set (new_ops s T)"
    using ea(3) new_ops_later[OF pre] by (auto simp add: od msgs)
  have 3: "\<forall>p \<in> pid ` set (r_participants r) \<union> fst ` set (connections s). p \<noteq> me \<longrightarrow>
         (media_of s p = None \<longrightarrow> (\<exists>c. Call c p ls \<in> set (new_ops s T)))
         \<and> (media_of s p \<noteq> None \<and> peer_data_open S p \<longrightarrow>
               Send (the (data_of s p)) (reconnect_msg me s) \<in> set (new_ops s T))"
  proof (intro ballI impI)
    fix p assume p: "p \<in> pid ` set (r_participants r) \<union> fst ` set (connections s)" "p \<noteq> me"
    then have "p \<in> set (map pid (r_participants r)) \<union> fst ` set (connections t)"
      by (simp add: t(3))
    with ea(4) p(2) have
      "(media_of t p = None \<longrightarrow> (\<exists>c. Call c p ls \<in> set (new_ops t T)))
       \<and> (media_of t p \<noteq> None \<and> peer_data_open t p \<longrightarrow>
             Send (the (data_of t p)) (reconnect_msg me t) \<in> set (new_ops t T))"
      by blast
    then show "(media_of s p = None \<longrightarrow> (\<exists>c. Call c p ls \<in> set (new_ops s T)))
         \<and> (media_of s p \<noteq> None \<and> peer_data_open S p \<longrightarrow>
               Send (the (data_of s p)) (reconnect_msg me s) \<in> set (new_ops s T))"
      unfolding same msgs using new_ops_later[OF pre] by blast
  qed
  show ?thesis
    unfolding T using st(1,2) 1 2 3 by (simp add: S_def)
qed

text \<open>
  The loop passes over a peer that has a media connection and no open data connection,
  in every state. On the sharing joiner these are \<open>r-23\<close>, whose data connection has
  closed, and \<open>r-31\<close>, which has none: a call from the current render asks the transport
  for nothing that concerns either.
\<close>

lemma repair_passes_over:
  "media_of s q \<noteq> None \<Longrightarrow> \<not> peer_data_open s q \<Longrightarrow> repair_camera me q s = s"
  by (auto simp add: repair_camera_def data_open_registry)

lemma stop_from_current_render:
  "peer sharing_state = Some ''r-17'' \<and> screenStream sharing_state = Some 9
   \<and> localStream sharing_state = Some 0
   \<and> map pid (participants sharing_state) = [''r-creator'', ''r-23'']
   \<and> map fst (connections sharing_state) = [''r-creator'', ''r-23'', ''r-31'']
   \<and> trace (stop_and_repair ''r-17'' (render_of sharing_state) sharing_state)
       = [Send 2 (screen_stopped_msg ''r-17'' sharing_state), Close 6, Close 7,
          Send 2 (reconnect_msg ''r-17'' sharing_state),
          Send 2 (camera_restored_msg ''r-17'' sharing_state)]"
  by (simp add: stop_and_repair_def camera_timer_def fire_def stopScreenShare_def render_of_def
      sharing_state_def
      room_state_def guest_def Let_def sendDataToAll_eq open_data_channels_def open_chan_of_def
      close_def setTimeout_def setParticipantTransition_def setParticipants_def
      establishAllCameraConnections_def known_peer_ids_def repair_camera_def media_of_def
      data_of_def data_open_def send_def screen_stopped_msg_def reconnect_msg_def
      camera_restored_msg_def)

text \<open>A render without a screen stream: its \<^verbatim>\<open>stopScreenShare\<close> returns at the guard.\<close>

lemma stopScreenShare_stale:
  "r_screenStream r = None \<Longrightarrow> stopScreenShare r s = s"
  by (simp add: stopScreenShare_def split: option.splits)

text \<open>
  Claim C3. The joiner \<open>r-17\<close> starts a screen share in \<open>room_state\<close>, where no screen
  stream exists yet: afterwards the share is active, with the screen stream 9 and the
  screen connections 6 and 7. The user ends the share with the browser's own control, the
  video track ends and its listener calls \<^verbatim>\<open>stopScreenShare\<close>. The function called is that of
  the render in which the share was started, whose \<^verbatim>\<open>screenStream\<close> is null, and it returns
  at its guard: the state is the one it was, the share still marked active, no screen
  connection closed, no timer armed, nothing sent, no peer repaired.
\<close>

theorem ended_track_stops_nothing:
  "peer room_state = Some ''r-17'' \<and> screenStream room_state = None
   \<and> screenStream (startScreenShare (Some 9) room_state) = Some 9
   \<and> localIsScreenSharing (startScreenShare (Some 9) room_state)
   \<and> screenConnections (startScreenShare (Some 9) room_state)
       = Some [(''r-creator'', 6), (''r-23'', 7)]
   \<and> on_screen_track_ended room_state (startScreenShare (Some 9) room_state)
       = startScreenShare (Some 9) room_state"
proof -
  have stale: "on_screen_track_ended room_state s = s" for s
    by (simp add: on_screen_track_ended_def stopScreenShare_stale render_of_def room_state_def)
  show ?thesis
    by (simp add: stale)
       (simp add: startScreenShare_def room_state_def guest_def Let_def
          sendDataToAll_eq open_data_channels_def open_chan_of_def share_screen_step_def
          call_peer_def send_def data_open_def setParticipantTransition_def setParticipants_def
          setTimeout_def)
qed

end
